theory Spec2Isabelle
  imports Complex_Main
begin

section \<open>Conventions of the embedding\<close>

text \<open>
  The development follows the Python package \<^verbatim>\<open>subagentic_ai\<close> module by module.
  \<^item> A Python \<^verbatim>\<open>float\<close> is an IEEE 754 binary64 number. A finite one is the
    \<^typ>\<open>real\<close> it denotes, and an arithmetic operation of the source is the exact
    operation followed by \<open>round_double\<close>, see the section on floating point.
  \<^item> A \<^verbatim>\<open>datetime\<close> is an \<^typ>\<open>int\<close> (microseconds since the epoch) and a
    \<^verbatim>\<open>timedelta\<close> is an \<^typ>\<open>int\<close> (microseconds). Every method that reads
    \<^verbatim>\<open>datetime.utcnow()\<close> takes the reading as its first argument \<open>now\<close>; the clock is
    taken not to advance while one call runs.
  \<^item> A \<^verbatim>\<open>str\<close> is a \<^typ>\<open>string\<close> of ASCII characters.
  \<^item> An exception is a value of \<open>error\<close>; a method that may raise returns
    \<open>error + 'a\<close> together with the state it leaves behind.
  \<^item> The \<^verbatim>\<open>async\<close> methods are run to completion one after the other.
\<close>

type_synonym datetime = int
type_synonym timedelta = int

datatype error = StatisticsError | RuntimeError string

section \<open>Strings\<close>

text \<open>\<^verbatim>\<open>str.lower()\<close> on ASCII text.\<close>

definition lower_char :: "char \<Rightarrow> char" where
  "lower_char c =
     (let n = (of_char c :: nat) in if 65 \<le> n \<and> n \<le> 90 then char_of (n + 32) else c)"

definition lower :: "string \<Rightarrow> string" where
  "lower s = map lower_char s"

fun startswith :: "string \<Rightarrow> string \<Rightarrow> bool" where
  "startswith s [] = True"
| "startswith [] (p # ps) = False"
| "startswith (c # cs) (p # ps) = (c = p \<and> startswith cs ps)"

text \<open>\<^verbatim>\<open>sub in s\<close> for two strings: \<open>sub\<close> occurs in \<open>s\<close> as a contiguous run.\<close>

fun contains :: "string \<Rightarrow> string \<Rightarrow> bool" where
  "contains sub [] = (sub = [])"
| "contains sub (c # cs) = (startswith (c # cs) sub \<or> contains sub cs)"

section \<open>Floating point\<close>

text \<open>
  \<open>round_double\<close> is the rounding of binary64 arithmetic: to the nearest number with a
  significand of 53 bits, a tie going to the even significand; below \<^verbatim>\<open>2**-1022\<close> the
  spacing stays that of the subnormal numbers, \<^verbatim>\<open>2**-1074\<close>.

  \<open>bit_length n\<close> is Python's \<^verbatim>\<open>n.bit_length()\<close>, and \<open>exponent x\<close> is the \<open>e\<close> with
  \<open>2 ^ e \<le> \<bar>x\<bar> < 2 ^ (e + 1)\<close>, for \<open>x \<noteq> 0\<close>.
\<close>

fun bit_length :: "nat \<Rightarrow> nat" where
  "bit_length n = (if n = 0 then 0 else Suc (bit_length (n div 2)))"

declare bit_length.simps [simp del]

definition exponent :: "real \<Rightarrow> int" where
  "exponent x =
     (if 1 \<le> \<bar>x\<bar> then int (bit_length (nat \<lfloor>\<bar>x\<bar>\<rfloor>)) - 1
      else - int (bit_length (nat (\<lceil>1 / \<bar>x\<bar>\<rceil> - 1))))"

definition pow2 :: "int \<Rightarrow> real" where
  "pow2 k = (if 0 \<le> k then 2 ^ nat k else 1 / 2 ^ nat (- k))"

definition round_half_even :: "real \<Rightarrow> int" where
  "round_half_even y =
     (let f = \<lfloor>y\<rfloor>; d = y - of_int f
      in if d < 1 / 2 then f else if 1 / 2 < d then f + 1 else if even f then f else f + 1)"

definition round_double :: "real \<Rightarrow> real" where
  "round_double x =
     (if x = 0 then 0
      else let ulp = pow2 (max (exponent x) (- 1022) - 52)
           in of_int (round_half_even (x / ulp)) * ulp)"

text \<open>
  The float operations of the source: \<^verbatim>\<open>x - y\<close> and \<^verbatim>\<open>x * y\<close> on two floats, and a
  decimal literal such as \<^verbatim>\<open>0.7\<close>, which denotes the double nearest to \<open>7 / 10\<close>.
  Comparisons, \<^verbatim>\<open>abs\<close>, \<^verbatim>\<open>min\<close> and \<^verbatim>\<open>max\<close> are exact.

  Infinities and NaN are not values of the model. An operation on finite floats whose
  exact result lies beyond the largest double gives an infinity in Python and a real
  beyond the largest double here; the source only compares such a result with a finite
  float, or clamps it, and both readings agree on that.
\<close>

definition float_sub :: "real \<Rightarrow> real \<Rightarrow> real" where
  "float_sub x y = round_double (x - y)"

definition float_mul :: "real \<Rightarrow> real \<Rightarrow> real" where
  "float_mul x y = round_double (x * y)"

definition float_literal :: "real \<Rightarrow> real" where
  "float_literal q = round_double q"

section \<open>trust\_level.py\<close>

record TrustLevel =
  sender_trust :: real
  content_trust :: real

text \<open>The constructor with its \<^verbatim>\<open>__post_init__\<close>: both values are clamped to \<open>[0, 1]\<close>.\<close>

definition TrustLevel_init :: "real \<Rightarrow> real \<Rightarrow> TrustLevel" where
  "TrustLevel_init s c =
     \<lparr>sender_trust = max 0 (min 1 s), content_trust = max 0 (min 1 c)\<rparr>"

definition meets_threshold :: "TrustLevel \<Rightarrow> TrustLevel \<Rightarrow> bool" where
  "meets_threshold self threshold =
     (sender_trust self \<ge> sender_trust threshold \<and>
      content_trust self \<ge> content_trust threshold)"

section \<open>security\_level.py\<close>

datatype SecurityLevel = PUBLIC | INTERNAL | CONFIDENTIAL | SECRET | TOP_SECRET

section \<open>trust\_broker.py\<close>

text \<open>
  \<^verbatim>\<open>ITrustBroker\<close> is an abstract class; an instance is the record of its methods.
  The brokers are queried as pure functions of their arguments.
\<close>

record TrustBroker =
  broker_id :: string
  name :: string
  evaluate_sender_trust :: "string \<Rightarrow> real"
  evaluate_content_trust :: "string \<Rightarrow> real"
  is_flagged :: "string \<Rightarrow> string \<Rightarrow> bool"

record SimpleTrustBroker =
  stb_broker_id :: string
  stb_name :: string
  baseline_trust :: real
  sender_reputations :: "string \<rightharpoonup> real"
  flagged_senders :: "string set"

definition MALICIOUS_CONTENT_PENALTY :: real where
  "MALICIOUS_CONTENT_PENALTY = float_literal (3 / 10)"

definition SUSPICIOUS_CONTENT_PENALTY :: real where
  "SUSPICIOUS_CONTENT_PENALTY = float_literal (6 / 10)"

definition VERIFIED_CONTENT_BONUS :: real where
  "VERIFIED_CONTENT_BONUS = float_literal (12 / 10)"

definition SimpleTrustBroker_init :: "string \<Rightarrow> string \<Rightarrow> real \<Rightarrow> SimpleTrustBroker" where
  "SimpleTrustBroker_init bid nm baseline =
     \<lparr>stb_broker_id = bid, stb_name = nm, baseline_trust = max 0 (min 1 baseline),
      sender_reputations = Map.empty, flagged_senders = {}\<rparr>"

definition stb_evaluate_sender_trust :: "SimpleTrustBroker \<Rightarrow> string \<Rightarrow> real" where
  "stb_evaluate_sender_trust self sender_id =
     (case sender_reputations self sender_id of
        Some r \<Rightarrow> r
      | None \<Rightarrow> baseline_trust self)"

definition stb_evaluate_content_trust :: "SimpleTrustBroker \<Rightarrow> string \<Rightarrow> real" where
  "stb_evaluate_content_trust self content =
     (let trust_score = baseline_trust self;
          trust_score =
            (if contains ''malicious'' (lower content)
               then float_mul trust_score MALICIOUS_CONTENT_PENALTY
             else if contains ''suspicious'' (lower content)
               then float_mul trust_score SUSPICIOUS_CONTENT_PENALTY
             else trust_score);
          trust_score =
            (if contains ''verified'' (lower content)
               then min 1 (float_mul trust_score VERIFIED_CONTENT_BONUS)
             else trust_score)
      in max 0 (min 1 trust_score))"

definition stb_is_flagged :: "SimpleTrustBroker \<Rightarrow> string \<Rightarrow> string \<Rightarrow> bool" where
  "stb_is_flagged self sender_id content =
     (if sender_id \<in> flagged_senders self then True
      else if contains ''malicious'' (lower content) then True
      else False)"

definition set_sender_reputation :: "string \<Rightarrow> real \<Rightarrow> SimpleTrustBroker \<Rightarrow> SimpleTrustBroker" where
  "set_sender_reputation sender_id reputation self =
     self\<lparr>sender_reputations := (sender_reputations self)(sender_id \<mapsto> max 0 (min 1 reputation))\<rparr>"

definition flag_sender :: "string \<Rightarrow> SimpleTrustBroker \<Rightarrow> SimpleTrustBroker" where
  "flag_sender sender_id self =
     self\<lparr>flagged_senders := insert sender_id (flagged_senders self)\<rparr>"

definition unflag_sender :: "string \<Rightarrow> SimpleTrustBroker \<Rightarrow> SimpleTrustBroker" where
  "unflag_sender sender_id self =
     self\<lparr>flagged_senders := flagged_senders self - {sender_id}\<rparr>"

text \<open>A \<^verbatim>\<open>SimpleTrustBroker\<close> seen through the \<^verbatim>\<open>ITrustBroker\<close> interface.\<close>

definition as_broker :: "SimpleTrustBroker \<Rightarrow> TrustBroker" where
  "as_broker self =
     \<lparr>broker_id = stb_broker_id self, name = stb_name self,
      evaluate_sender_trust = stb_evaluate_sender_trust self,
      evaluate_content_trust = stb_evaluate_content_trust self,
      is_flagged = stb_is_flagged self\<rparr>"

section \<open>trust\_profile.py\<close>

record TrustProfile =
  security_level :: SecurityLevel
  required_trust_threshold :: TrustLevel
  trust_brokers :: "TrustBroker list"
  minimum_broker_agreement :: int
  agreement_tolerance :: real

definition DEFAULT_MINIMUM_BROKER_AGREEMENT :: int where
  "DEFAULT_MINIMUM_BROKER_AGREEMENT = 2"

text \<open>
  The dataclass constructor with its \<^verbatim>\<open>__post_init__\<close>: the agreement count is raised
  to at least \<open>2\<close> and the tolerance is clamped to \<open>[0, 1]\<close>.
\<close>

definition TrustProfile_init ::
  "SecurityLevel \<Rightarrow> TrustLevel \<Rightarrow> TrustBroker list \<Rightarrow> int \<Rightarrow> real \<Rightarrow> TrustProfile" where
  "TrustProfile_init sl threshold brokers agreement tolerance =
     \<lparr>security_level = sl,
      required_trust_threshold = threshold,
      trust_brokers = brokers,
      minimum_broker_agreement =
        (if agreement < DEFAULT_MINIMUM_BROKER_AGREEMENT
           then DEFAULT_MINIMUM_BROKER_AGREEMENT else agreement),
      agreement_tolerance = max 0 (min 1 tolerance)\<rparr>"

text \<open>
  \<^verbatim>\<open>statistics.mean\<close> raises \<^verbatim>\<open>StatisticsError\<close> on an empty sequence. On floats it
  adds the data up exactly, as fractions, divides by their number and converts the
  quotient to a float: the exact mean, rounded once.
\<close>

definition mean :: "real list \<Rightarrow> error + real" where
  "mean xs =
     (if xs = [] then Inl StatisticsError
      else Inr (round_double (sum_list xs / real (length xs))))"

definition has_independent_agreement :: "TrustProfile \<Rightarrow> real list \<Rightarrow> error + bool" where
  "has_independent_agreement self evaluations =
     (if int (length evaluations) < minimum_broker_agreement self then Inr False
      else case mean evaluations of
        Inl e \<Rightarrow> Inl e
      | Inr avg \<Rightarrow>
          (let within_tolerance =
                 length (filter (\<lambda>e. \<bar>float_sub e avg\<bar> \<le> agreement_tolerance self) evaluations)
           in Inr (int within_tolerance \<ge> minimum_broker_agreement self)))"

text \<open>
  The loop over the brokers of \<^verbatim>\<open>validate_inbound\<close>, with the two lists it appends to.
  \<open>None\<close> is the \<^verbatim>\<open>return False\<close> taken inside the loop when a broker flags the
  message; the brokers after it are not queried.
\<close>

fun evaluate_brokers ::
  "TrustBroker list \<Rightarrow> string \<Rightarrow> string \<Rightarrow> real list \<Rightarrow> real list \<Rightarrow> (real list \<times> real list) option"
where
  "evaluate_brokers [] sender_id content sender_trusts content_trusts =
     Some (sender_trusts, content_trusts)"
| "evaluate_brokers (broker # rest) sender_id content sender_trusts content_trusts =
     (if is_flagged broker sender_id content then None
      else evaluate_brokers rest sender_id content
             (sender_trusts @ [evaluate_sender_trust broker sender_id])
             (content_trusts @ [evaluate_content_trust broker content]))"

definition validate_inbound :: "TrustProfile \<Rightarrow> string \<Rightarrow> string \<Rightarrow> error + bool" where
  "validate_inbound self sender_id content =
     (if int (length (trust_brokers self)) < minimum_broker_agreement self then Inr False
      else case evaluate_brokers (trust_brokers self) sender_id content [] [] of
        None \<Rightarrow> Inr False
      | Some (sender_trusts, content_trusts) \<Rightarrow>
          (case has_independent_agreement self sender_trusts of
             Inl e \<Rightarrow> Inl e
           | Inr False \<Rightarrow> Inr False
           | Inr True \<Rightarrow>
               (case has_independent_agreement self content_trusts of
                  Inl e \<Rightarrow> Inl e
                | Inr False \<Rightarrow> Inr False
                | Inr True \<Rightarrow>
                    (case mean sender_trusts of
                       Inl e \<Rightarrow> Inl e
                     | Inr avg_sender_trust \<Rightarrow>
                         (case mean content_trusts of
                            Inl e \<Rightarrow> Inl e
                          | Inr avg_content_trust \<Rightarrow>
                              (let evaluated_trust =
                                     TrustLevel_init avg_sender_trust avg_content_trust
                               in Inr (meets_threshold evaluated_trust
                                         (required_trust_threshold self))))))))"

section \<open>mission\_status.py\<close>

datatype MissionStatus = CREATED | ACTIVE | PAUSED | COMPLETED | FAILED | RETIRED

section \<open>Text of enum members, booleans and exceptions in f-strings\<close>

fun str_MissionStatus :: "MissionStatus \<Rightarrow> string" where
  "str_MissionStatus CREATED = ''MissionStatus.CREATED''"
| "str_MissionStatus ACTIVE = ''MissionStatus.ACTIVE''"
| "str_MissionStatus PAUSED = ''MissionStatus.PAUSED''"
| "str_MissionStatus COMPLETED = ''MissionStatus.COMPLETED''"
| "str_MissionStatus FAILED = ''MissionStatus.FAILED''"
| "str_MissionStatus RETIRED = ''MissionStatus.RETIRED''"

fun str_SecurityLevel :: "SecurityLevel \<Rightarrow> string" where
  "str_SecurityLevel PUBLIC = ''SecurityLevel.PUBLIC''"
| "str_SecurityLevel INTERNAL = ''SecurityLevel.INTERNAL''"
| "str_SecurityLevel CONFIDENTIAL = ''SecurityLevel.CONFIDENTIAL''"
| "str_SecurityLevel SECRET = ''SecurityLevel.SECRET''"
| "str_SecurityLevel TOP_SECRET = ''SecurityLevel.TOP_SECRET''"

fun str_bool :: "bool \<Rightarrow> string" where
  "str_bool True = ''True''"
| "str_bool False = ''False''"

fun str_error :: "error \<Rightarrow> string" where
  "str_error StatisticsError = ''mean requires at least one data point''"
| "str_error (RuntimeError msg) = msg"

section \<open>communication\_authorization.py\<close>

record CommunicationAuthorization =
  from_agent_id :: string
  to_agent_id :: string
  is_bidirectional :: bool
  allowed_data_scopes :: "string list"
  created_at :: datetime
  expires_at :: "datetime option"

text \<open>
  \<^verbatim>\<open>expires_at = created_at + ttl if ttl else None\<close> tests the truth value of \<open>ttl\<close>:
  \<^verbatim>\<open>None\<close> is false, and so is a \<^verbatim>\<open>timedelta\<close> of zero length.
  Likewise \<^verbatim>\<open>allowed_data_scopes if allowed_data_scopes else ("*",)\<close> replaces both
  \<^verbatim>\<open>None\<close> and the empty tuple.
\<close>

definition create ::
  "datetime \<Rightarrow> string \<Rightarrow> string \<Rightarrow> bool \<Rightarrow> string list option \<Rightarrow> timedelta option
     \<Rightarrow> CommunicationAuthorization" where
  "create now from_id to_id bidirectional scopes_arg ttl =
     (let created = now;
          expires = (case ttl of
                       None \<Rightarrow> None
                     | Some d \<Rightarrow> if d \<noteq> 0 then Some (created + d) else None);
          scopes = (case scopes_arg of
                      None \<Rightarrow> [''*'']
                    | Some sc \<Rightarrow> if sc \<noteq> [] then sc else [''*''])
      in \<lparr>from_agent_id = from_id, to_agent_id = to_id, is_bidirectional = bidirectional,
          allowed_data_scopes = scopes, created_at = created, expires_at = expires\<rparr>)"

definition is_expired :: "datetime \<Rightarrow> CommunicationAuthorization \<Rightarrow> bool" where
  "is_expired now self =
     (case expires_at self of
        None \<Rightarrow> False
      | Some e \<Rightarrow> now > e)"

definition is_authorized :: "datetime \<Rightarrow> CommunicationAuthorization \<Rightarrow> string \<Rightarrow> string \<Rightarrow> bool" where
  "is_authorized now self from_id to_id =
     (if is_expired now self then False
      else if from_agent_id self = from_id \<and> to_agent_id self = to_id then True
      else if is_bidirectional self \<and> from_agent_id self = to_id \<and> to_agent_id self = from_id
        then True
      else False)"

section \<open>sub\_agent.py\<close>

text \<open>
  A log entry is the pair of its timestamp and its message. The key
  \<^verbatim>\<open>f"received_{datetime.utcnow().timestamp()}"\<close> of the local state is
  \<open>received t\<close> for the clock reading \<open>t\<close>.
\<close>

type_synonym log_entry = "datetime \<times> string"

datatype state_key = received datetime

record SubAgent =
  sa_id :: string
  domain :: string
  trust_profile :: TrustProfile
  status :: MissionStatus
  local_state :: "state_key \<rightharpoonup> string"
  activity_log :: "log_entry list"

definition log_activity :: "datetime \<Rightarrow> string \<Rightarrow> SubAgent \<Rightarrow> SubAgent" where
  "log_activity now activity self =
     self\<lparr>activity_log := activity_log self @ [(now, activity)]\<rparr>"

definition SubAgent_init :: "datetime \<Rightarrow> string \<Rightarrow> string \<Rightarrow> TrustProfile \<Rightarrow> SubAgent" where
  "SubAgent_init now agent_id domain_name profile =
     log_activity now (''SubAgent created: '' @ agent_id @ '' for domain: '' @ domain_name)
       \<lparr>sa_id = agent_id, domain = domain_name, trust_profile = profile, status = CREATED,
        local_state = Map.empty, activity_log = []\<rparr>"

text \<open>
  A method returns its result, or the exception it raises, and the object as the
  call leaves it. A \<^verbatim>\<open>raise\<close> happens before the object is touched.
\<close>

definition start_mission :: "datetime \<Rightarrow> SubAgent \<Rightarrow> (error + unit) \<times> SubAgent" where
  "start_mission now self =
     (if status self \<noteq> CREATED
        then (Inl (RuntimeError (''Cannot start mission from status: '' @
                                  str_MissionStatus (status self))), self)
      else (Inr (), log_activity now ''Mission started'' (self\<lparr>status := ACTIVE\<rparr>)))"

definition process_task :: "datetime \<Rightarrow> string \<Rightarrow> SubAgent \<Rightarrow> (error + string) \<times> SubAgent" where
  "process_task now task self =
     (if status self \<noteq> ACTIVE
        then (Inl (RuntimeError (''Cannot process task in status: '' @
                                  str_MissionStatus (status self))), self)
      else (let self1 = log_activity now (''Processing task: '' @ task) self;
                result = ''Processed: '' @ task @ '' in domain: '' @ domain self1;
                self2 = log_activity now (''Task completed: '' @ result) self1
            in (Inr result, self2)))"

definition receive_information ::
  "datetime \<Rightarrow> string \<Rightarrow> string \<Rightarrow> SubAgent \<Rightarrow> (error + bool) \<times> SubAgent" where
  "receive_information now sender_id information self =
     (if status self \<noteq> ACTIVE
        then (Inr False,
              log_activity now (''Rejected inbound information - status: '' @
                                str_MissionStatus (status self)) self)
      else case validate_inbound (trust_profile self) sender_id information of
        Inl e \<Rightarrow> (Inl e, self)
      | Inr is_valid \<Rightarrow>
          if is_valid
            then (Inr True,
                  log_activity now (''Accepted information from: '' @ sender_id)
                    (self\<lparr>local_state := (local_state self)(received now \<mapsto> information)\<rparr>))
          else (Inr False,
                log_activity now (''Rejected information from: '' @ sender_id @
                                  '' - trust validation failed'') self))"

definition send_information :: "datetime \<Rightarrow> string \<Rightarrow> string \<Rightarrow> SubAgent \<Rightarrow> bool \<times> SubAgent" where
  "send_information now recipient_id information self =
     (if status self \<noteq> ACTIVE
        then (False,
              log_activity now (''Cannot send information - status: '' @
                                str_MissionStatus (status self)) self)
      else (True,
            log_activity now (''Sending information to: '' @ recipient_id @ '' (SL: '' @
                              str_SecurityLevel (security_level (trust_profile self)) @ '')'')
              self))"

definition complete_mission :: "datetime \<Rightarrow> SubAgent \<Rightarrow> (error + unit) \<times> SubAgent" where
  "complete_mission now self =
     (if status self \<notin> {ACTIVE, PAUSED}
        then (Inl (RuntimeError (''Cannot complete mission from status: '' @
                                  str_MissionStatus (status self))), self)
      else (Inr (), log_activity now ''Mission completed'' (self\<lparr>status := COMPLETED\<rparr>)))"

definition retire :: "datetime \<Rightarrow> SubAgent \<Rightarrow> SubAgent" where
  "retire now self =
     (if status self = RETIRED then self
      else (log_activity now ''SubAgent retired'' (self\<lparr>status := RETIRED\<rparr>))
             \<lparr>local_state := Map.empty\<rparr>)"

definition get_activity_log :: "SubAgent \<Rightarrow> log_entry list" where
  "get_activity_log self = activity_log self"

definition get_state_snapshot :: "SubAgent \<Rightarrow> (state_key \<rightharpoonup> string)" where
  "get_state_snapshot self = local_state self"

section \<open>front\_line\_agent.py\<close>

text \<open>
  The \<^verbatim>\<open>SubAgent\<close> objects are mutable and shared: the coordinator's dictionary holds
  references, and so does every caller that \<^verbatim>\<open>create_sub_agent\<close> returned one to. The
  objects therefore live in a store, addressed by natural numbers; \<open>allocated\<close> is the
  next free address. The dictionary \<^verbatim>\<open>_active_sub_agents\<close> maps an id to an address.
\<close>

record FrontLineAgent =
  fla_id :: string
  default_trust_profile :: TrustProfile
  active_sub_agents :: "string \<rightharpoonup> nat"
  communication_authorizations :: "CommunicationAuthorization list"
  event_log :: "log_entry list"

record world =
  objects :: "nat \<Rightarrow> SubAgent"
  allocated :: nat
  fla :: FrontLineAgent

text \<open>Calling a method of the object at an address, and storing what it leaves behind.\<close>

definition invoke :: "nat \<Rightarrow> (SubAgent \<Rightarrow> 'r \<times> SubAgent) \<Rightarrow> world \<Rightarrow> 'r \<times> world" where
  "invoke addr method w =
     (case method (objects w addr) of
        (r, obj) \<Rightarrow> (r, w\<lparr>objects := (objects w)(addr := obj)\<rparr>))"

definition log_event :: "datetime \<Rightarrow> string \<Rightarrow> world \<Rightarrow> world" where
  "log_event now event_description w =
     w\<lparr>fla := (fla w)\<lparr>event_log := event_log (fla w) @
          [(now, ''[FLA-'' @ fla_id (fla w) @ ''] '' @ event_description)]\<rparr>\<rparr>"

definition FrontLineAgent_init :: "datetime \<Rightarrow> string \<Rightarrow> TrustProfile \<Rightarrow> FrontLineAgent" where
  "FrontLineAgent_init now agent_id profile =
     \<lparr>fla_id = agent_id, default_trust_profile = profile, active_sub_agents = Map.empty,
      communication_authorizations = [],
      event_log = [(now, ''[FLA-'' @ agent_id @ ''] '' @ ''FLA created: '' @ agent_id)]\<rparr>"

definition classify_domain :: "datetime \<Rightarrow> string \<Rightarrow> world \<Rightarrow> string \<times> world" where
  "classify_domain now user_intent w =
     (let w1 = log_event now (''Classifying domain for intent: '' @ user_intent) w;
          intent = lower user_intent
      in if contains ''data'' intent \<or> contains ''analyze'' intent then (''DataAnalysis'', w1)
         else if contains ''code'' intent \<or> contains ''program'' intent then (''CodeGeneration'', w1)
         else if contains ''security'' intent \<or> contains ''audit'' intent then (''SecurityAudit'', w1)
         else if contains ''research'' intent \<or> contains ''find'' intent then (''Research'', w1)
         else (''General'', w1))"

text \<open>
  \<^verbatim>\<open>create_sub_agent\<close>: \<open>hex\<close> is the value of \<^verbatim>\<open>uuid4().hex\<close>. The new object is
  registered before its mission is started.
\<close>

definition create_sub_agent ::
  "datetime \<Rightarrow> string \<Rightarrow> string \<Rightarrow> TrustProfile option \<Rightarrow> world \<Rightarrow> (error + nat) \<times> world" where
  "create_sub_agent now hex domain_name profile_arg w =
     (let agent_id = ''SA-'' @ domain_name @ ''-'' @ hex;
          profile = (case profile_arg of
                       Some p \<Rightarrow> p
                     | None \<Rightarrow> default_trust_profile (fla w));
          sub_agent = allocated w;
          w1 = w\<lparr>objects := (objects w)(sub_agent := SubAgent_init now agent_id domain_name profile),
                 allocated := Suc (allocated w)\<rparr>;
          w2 = w1\<lparr>fla := (fla w1)\<lparr>active_sub_agents :=
                   (active_sub_agents (fla w1))(agent_id \<mapsto> sub_agent)\<rparr>\<rparr>
      in case invoke sub_agent (start_mission now) w2 of
           (Inl e, w3) \<Rightarrow> (Inl e, w3)
         | (Inr _, w3) \<Rightarrow>
             (Inr sub_agent,
              log_event now (''Created and started SubAgent: '' @ agent_id @
                             '' for domain: '' @ domain_name) w3))"

definition reactivate_sub_agent :: "datetime \<Rightarrow> string \<Rightarrow> world \<Rightarrow> nat option \<times> world" where
  "reactivate_sub_agent now agent_id w =
     (case active_sub_agents (fla w) agent_id of
        Some agent \<Rightarrow> (Some agent, log_event now (''Reactivated SubAgent: '' @ agent_id) w)
      | None \<Rightarrow>
          (None, log_event now (''Failed to reactivate SubAgent: '' @ agent_id @
                                '' - not found'') w))"

definition authorize_communication ::
  "datetime \<Rightarrow> string \<Rightarrow> string \<Rightarrow> bool \<Rightarrow> string list option \<Rightarrow> timedelta option \<Rightarrow> world \<Rightarrow> world"
where
  "authorize_communication now from_id to_id bidirectional scopes_arg ttl w =
     (let scopes = (case scopes_arg of
                      None \<Rightarrow> None
                    | Some sc \<Rightarrow> if sc \<noteq> [] then Some sc else None);
          authorization = create now from_id to_id bidirectional scopes ttl;
          w1 = w\<lparr>fla := (fla w)\<lparr>communication_authorizations :=
                   communication_authorizations (fla w) @ [authorization]\<rparr>\<rparr>
      in log_event now (''Authorized communication: '' @ from_id @ '' -> '' @ to_id @
                        '' (bidirectional: '' @ str_bool bidirectional @ '')'') w1)"

definition mediate_communication ::
  "datetime \<Rightarrow> string \<Rightarrow> string \<Rightarrow> string \<Rightarrow> world \<Rightarrow> (error + bool) \<times> world" where
  "mediate_communication now from_id to_id information w =
     (case find (\<lambda>auth. is_authorized now auth from_id to_id)
             (communication_authorizations (fla w)) of
        None \<Rightarrow>
          (Inr False,
           log_event now (''Communication blocked: '' @ from_id @ '' -> '' @ to_id @
                          '' - not authorized'') w)
      | Some authorization \<Rightarrow>
          (case active_sub_agents (fla w) from_id of
             None \<Rightarrow>
               (Inr False,
                log_event now (''Communication failed: sender '' @ from_id @ '' not found'') w)
           | Some sender \<Rightarrow>
               (case active_sub_agents (fla w) to_id of
                  None \<Rightarrow>
                    (Inr False,
                     log_event now (''Communication failed: receiver '' @ to_id @
                                    '' not found'') w)
                | Some receiver \<Rightarrow>
                    (case invoke sender (send_information now to_id information) w of
                       (sent_success, w1) \<Rightarrow>
                         if \<not> sent_success
                           then (Inr False,
                                 log_event now ''Communication failed: sender rejected outbound'' w1)
                         else
                           (case invoke receiver
                                   (receive_information now from_id information) w1 of
                              (Inl e, w2) \<Rightarrow> (Inl e, w2)
                            | (Inr receive_success, w2) \<Rightarrow>
                                (Inr receive_success,
                                 log_event now (''Communication mediated: '' @ from_id @
                                                '' -> '' @ to_id @ '' - success: '' @
                                                str_bool receive_success) w2))))))"

definition retire_sub_agent :: "datetime \<Rightarrow> string \<Rightarrow> world \<Rightarrow> world" where
  "retire_sub_agent now agent_id w =
     (case active_sub_agents (fla w) agent_id of
        None \<Rightarrow> w
      | Some agent \<Rightarrow>
          (let w1 = w\<lparr>objects := (objects w)(agent := retire now (objects w agent))\<rparr>;
               w2 = w1\<lparr>fla := (fla w1)\<lparr>active_sub_agents :=
                        (active_sub_agents (fla w1))(agent_id := None)\<rparr>\<rparr>;
               w3 = w2\<lparr>fla := (fla w2)\<lparr>communication_authorizations :=
                        filter (\<lambda>auth. from_agent_id auth \<noteq> agent_id \<and>
                                        to_agent_id auth \<noteq> agent_id)
                          (communication_authorizations (fla w2))\<rparr>\<rparr>
           in log_event now (''Retired SubAgent: '' @ agent_id) w3))"

definition process_user_task ::
  "datetime \<Rightarrow> string \<Rightarrow> string \<Rightarrow> string \<Rightarrow> world \<Rightarrow> (error + string) \<times> world" where
  "process_user_task now hex user_intent task_details w =
     (let w1 = log_event now (''Processing user task: '' @ user_intent) w
      in case classify_domain now user_intent w1 of
        (domain_name, w2) \<Rightarrow>
          (case create_sub_agent now hex domain_name None w2 of
             (Inl e, w3) \<Rightarrow> (Inl e, w3)
           | (Inr sub_agent, w3) \<Rightarrow>
               (case invoke sub_agent (process_task now task_details) w3 of
                  (Inl e, w4) \<Rightarrow>
                    (Inl e, log_event now (''Task processing failed: '' @ str_error e) w4)
                | (Inr result, w4) \<Rightarrow>
                    (case invoke sub_agent (complete_mission now) w4 of
                       (Inl e, w5) \<Rightarrow>
                         (Inl e, log_event now (''Task processing failed: '' @ str_error e) w5)
                     | (Inr _, w5) \<Rightarrow> (Inr result, w5)))))"

definition get_active_sub_agents :: "world \<Rightarrow> (string \<rightharpoonup> nat)" where
  "get_active_sub_agents w = active_sub_agents (fla w)"

definition get_event_log :: "world \<Rightarrow> log_entry list" where
  "get_event_log w = event_log (fla w)"

section \<open>Sequences of calls on the coordinator\<close>

text \<open>
  A caller drives the coordinator through its public methods. A \<open>request\<close> is one such
  call with its arguments (and the clock reading and the UUID it meets), \<open>perform\<close> runs
  it and keeps the state it leaves, whatever it returned or raised.
\<close>

datatype request =
    Classify datetime string
  | Create datetime string string "TrustProfile option"
  | Reactivate datetime string
  | Authorize datetime string string bool "string list option" "timedelta option"
  | Mediate datetime string string string
  | Retire datetime string
  | ProcessUserTask datetime string string string

fun perform :: "request \<Rightarrow> world \<Rightarrow> world" where
  "perform (Classify now user_intent) w = snd (classify_domain now user_intent w)"
| "perform (Create now hex domain_name profile_arg) w =
     snd (create_sub_agent now hex domain_name profile_arg w)"
| "perform (Reactivate now agent_id) w = snd (reactivate_sub_agent now agent_id w)"
| "perform (Authorize now from_id to_id bidirectional scopes_arg ttl) w =
     authorize_communication now from_id to_id bidirectional scopes_arg ttl w"
| "perform (Mediate now from_id to_id information) w =
     snd (mediate_communication now from_id to_id information w)"
| "perform (Retire now agent_id) w = retire_sub_agent now agent_id w"
| "perform (ProcessUserTask now hex user_intent task_details) w =
     snd (process_user_task now hex user_intent task_details w)"

fun perform_all :: "request list \<Rightarrow> world \<Rightarrow> world" where
  "perform_all [] w = w"
| "perform_all (r # rs) w = perform_all rs (perform r w)"

text \<open>The id that a request registers a new sub-agent under, if it creates one.\<close>

fun creates :: "request \<Rightarrow> world \<Rightarrow> string option" where
  "creates (Create now hex domain_name profile_arg) w = Some (''SA-'' @ domain_name @ ''-'' @ hex)"
| "creates (ProcessUserTask now hex user_intent task_details) w =
     Some (''SA-'' @ fst (classify_domain now user_intent w) @ ''-'' @ hex)"
| "creates r w = None"

fun never_creates :: "string \<Rightarrow> request list \<Rightarrow> world \<Rightarrow> bool" where
  "never_creates agent_id [] w = True"
| "never_creates agent_id (r # rs) w =
     (creates r w \<noteq> Some agent_id \<and> never_creates agent_id rs (perform r w))"

section \<open>demo.py: the configuration used as concrete input\<close>

definition demo_broker1 :: SimpleTrustBroker where
  "demo_broker1 =
     flag_sender ''sender-malicious''
       (set_sender_reputation ''sender-reliable'' (float_literal (9 / 10))
          (SimpleTrustBroker_init ''TB-001'' ''Trust Broker Alpha'' (float_literal (7 / 10))))"

definition demo_broker2 :: SimpleTrustBroker where
  "demo_broker2 =
     set_sender_reputation ''sender-reliable'' (float_literal (85 / 100))
       (SimpleTrustBroker_init ''TB-002'' ''Trust Broker Beta'' (float_literal (75 / 100)))"

definition demo_broker3 :: SimpleTrustBroker where
  "demo_broker3 =
     set_sender_reputation ''sender-reliable'' (float_literal (88 / 100))
       (SimpleTrustBroker_init ''TB-003'' ''Trust Broker Gamma'' (float_literal (8 / 10)))"

definition demo_brokers :: "TrustBroker list" where
  "demo_brokers = [as_broker demo_broker1, as_broker demo_broker2, as_broker demo_broker3]"

definition demo_trust_profile :: TrustProfile where
  "demo_trust_profile =
     TrustProfile_init INTERNAL
       (TrustLevel_init (float_literal (6 / 10)) (float_literal (6 / 10)))
       demo_brokers 2 (float_literal (15 / 100))"

text \<open>
  The state right after \<^verbatim>\<open>FrontLineAgent("FLA-001", trust_profile)\<close>. No object is
  allocated yet; the store is total, so the unused addresses hold a placeholder.
\<close>

definition demo_initial :: world where
  "demo_initial =
     \<lparr>objects = (\<lambda>_. SubAgent_init 0 [] [] demo_trust_profile),
      allocated = 0,
      fla = FrontLineAgent_init 1000 ''FLA-001'' demo_trust_profile\<rparr>"

text \<open>Step 5 of the demo: a research and an analysis sub-agent.\<close>

definition demo_world :: world where
  "demo_world =
     perform_all [Create 1001 ''0a'' ''Research'' None, Create 1002 ''0b'' ''Analysis'' None]
       demo_initial"

text \<open>
  Step 5 continued: the two-way grant of the demo, and a grant whose time to live is
  \<^verbatim>\<open>timedelta(0)\<close>.
\<close>

definition demo_authorized :: world where
  "demo_authorized =
     authorize_communication 1500 ''SA-Research-0a'' ''SA-Analysis-0b'' True
       (Some [''research_data'', ''analysis_results'']) None demo_world"

definition demo_zero_ttl :: world where
  "demo_zero_ttl =
     authorize_communication 1500 ''SA-Research-0a'' ''SA-Analysis-0b'' False None (Some 0)
       demo_world"

text \<open>
  One sub-agent of the demo in three stages of its life: just constructed, after
  \<^verbatim>\<open>start_mission\<close>, and after \<^verbatim>\<open>retire\<close>.
\<close>

definition demo_created :: SubAgent where
  "demo_created = SubAgent_init 1000 ''SA-Research-0a'' ''Research'' demo_trust_profile"

definition demo_active :: SubAgent where
  "demo_active = snd (start_mission 1001 demo_created)"

definition demo_retired :: SubAgent where
  "demo_retired = retire 1002 demo_active"

text \<open>
  The demo's coordinator after the caller that holds the analysis sub-agent has called
  \<^verbatim>\<open>complete_mission\<close> on it: the sub-agent is \<open>COMPLETED\<close> and still in the active map.
\<close>

definition demo_completed :: world where
  "demo_completed = snd (invoke 1 (complete_mission 1600) demo_authorized)"

section \<open>Two further profiles used as concrete input\<close>

text \<open>
  Three \<^verbatim>\<open>SimpleTrustBroker\<close>s with the baselines \<^verbatim>\<open>0.05\<close>, \<^verbatim>\<open>0.06\<close> and \<^verbatim>\<open>0.34\<close>, under a
  profile with the threshold \<^verbatim>\<open>TrustLevel(0.0, 0.0)\<close>, an agreement count of \<open>2\<close> and a
  tolerance of \<^verbatim>\<open>0.1\<close>.
\<close>

definition rounding_brokers :: "TrustBroker list" where
  "rounding_brokers =
     [as_broker (SimpleTrustBroker_init ''TB-A'' ''Broker A'' (float_literal (5 / 100))),
      as_broker (SimpleTrustBroker_init ''TB-B'' ''Broker B'' (float_literal (6 / 100))),
      as_broker (SimpleTrustBroker_init ''TB-C'' ''Broker C'' (float_literal (34 / 100)))]"

definition rounding_profile :: TrustProfile where
  "rounding_profile =
     TrustProfile_init INTERNAL (TrustLevel_init 0 0) rounding_brokers 2 (float_literal (1 / 10))"

text \<open>
  An implementation of \<^verbatim>\<open>ITrustBroker\<close> that flags nothing and scores every sender and
  every content at \<^verbatim>\<open>-0.5\<close>, and a profile with two such brokers and the threshold
  \<^verbatim>\<open>TrustLevel(0.0, 0.0)\<close>.
\<close>

definition negative_broker :: TrustBroker where
  "negative_broker =
     \<lparr>broker_id = ''TB-N'', name = ''Broker N'',
      evaluate_sender_trust = (\<lambda>sender_id. - (1 / 2)),
      evaluate_content_trust = (\<lambda>content. - (1 / 2)),
      is_flagged = (\<lambda>sender_id content. False)\<rparr>"

definition negative_profile :: TrustProfile where
  "negative_profile =
     TrustProfile_init INTERNAL (TrustLevel_init 0 0) [negative_broker, negative_broker] 2
       (float_literal (1 / 10))"

section \<open>Properties of floating point\<close>

lemma round_half_even_nonneg: "0 \<le> y \<Longrightarrow> 0 \<le> round_half_even y"
  by (simp add: round_half_even_def Let_def)

lemma round_half_even_le:
  assumes "y \<le> of_int N"
  shows "round_half_even y \<le> N"
proof (cases "y = of_int N")
  case True
  then show ?thesis by (simp add: round_half_even_def Let_def)
next
  case False
  with assms have "y < of_int N" by simp
  then have "\<lfloor>y\<rfloor> < N" by (simp add: floor_less_iff)
  then show ?thesis by (simp add: round_half_even_def Let_def)
qed

lemma exponent_unit: "\<bar>x\<bar> \<le> 1 \<Longrightarrow> exponent x \<le> 0"
  by (cases "\<bar>x\<bar> = 1") (simp_all add: exponent_def bit_length.simps)

text \<open>Rounding keeps a number of \<open>[0, 1]\<close> in \<open>[0, 1]\<close>.\<close>

lemma round_double_unit:
  assumes "0 \<le> x" and "x \<le> 1"
  shows "0 \<le> round_double x \<and> round_double x \<le> 1"
proof (cases "x = 0")
  case True
  then show ?thesis by (simp add: round_double_def)
next
  case False
  define n where "n = nat (52 - max (exponent x) (- 1022))"
  from assms have "exponent x \<le> 0" by (intro exponent_unit) simp
  then have neg: "\<not> 0 \<le> max (exponent x) (- 1022) - 52" by simp
  have ulp: "pow2 (max (exponent x) (- 1022) - 52) = 1 / 2 ^ n"
    using neg by (simp add: pow2_def n_def)
  have rd: "round_double x = of_int (round_half_even (x * 2 ^ n)) / 2 ^ n"
    using False by (simp add: round_double_def ulp Let_def)
  from assms have "0 \<le> x * 2 ^ n" by simp
  then have lo: "0 \<le> round_half_even (x * 2 ^ n)" by (rule round_half_even_nonneg)
  from assms have "x * 2 ^ n \<le> of_int (2 ^ n)" by simp
  then have "round_half_even (x * 2 ^ n) \<le> 2 ^ n" by (rule round_half_even_le)
  then have hi: "real_of_int (round_half_even (x * 2 ^ n)) \<le> 2 ^ n"
    by (metis of_int_le_iff of_int_numeral of_int_power)
  from lo hi show ?thesis by (simp add: rd divide_le_eq)
qed

text \<open>
  Evaluation of a float operation on numerals. The rules for \<open>round_double\<close> and
  \<open>bit_length\<close> rewrite numerals only.
\<close>

lemma bit_length_numeral:
  "bit_length 0 = 0"
  "bit_length 1 = 1"
  "bit_length (Suc 0) = 1"
  "bit_length (numeral (Num.Bit0 k)) = Suc (bit_length (numeral k))"
  "bit_length (numeral (Num.Bit1 k)) = Suc (bit_length (numeral k))"
proof -
  show "bit_length 0 = 0" by (simp add: bit_length.simps)
  show "bit_length 1 = 1" by (simp add: bit_length.simps)
  show "bit_length (Suc 0) = 1" by (simp add: bit_length.simps)
  have "numeral (Num.Bit0 k) div 2 = (numeral k :: nat)" by simp
  then show "bit_length (numeral (Num.Bit0 k)) = Suc (bit_length (numeral k))"
    by (subst bit_length.simps) simp
  have "numeral (Num.Bit1 k) div 2 = (numeral k :: nat)" by simp
  then show "bit_length (numeral (Num.Bit1 k)) = Suc (bit_length (numeral k))"
    by (subst bit_length.simps) simp
qed

lemma round_double_nonzero:
  "x \<noteq> 0 \<Longrightarrow>
   round_double x =
     (let ulp = pow2 (max (exponent x) (- 1022) - 52)
      in of_int (round_half_even (x / ulp)) * ulp)"
  by (simp add: round_double_def)

lemma round_double_numeral:
  "round_double 0 = 0"
  "round_double 1 =
     (let ulp = pow2 (max (exponent 1) (- 1022) - 52)
      in of_int (round_half_even (1 / ulp)) * ulp)"
  "round_double (- 1) =
     (let ulp = pow2 (max (exponent (- 1)) (- 1022) - 52)
      in of_int (round_half_even (- 1 / ulp)) * ulp)"
  "round_double (numeral a) =
     (let ulp = pow2 (max (exponent (numeral a)) (- 1022) - 52)
      in of_int (round_half_even (numeral a / ulp)) * ulp)"
  "round_double (- numeral a) =
     (let ulp = pow2 (max (exponent (- numeral a)) (- 1022) - 52)
      in of_int (round_half_even (- numeral a / ulp)) * ulp)"
  "round_double (numeral a / numeral b) =
     (let ulp = pow2 (max (exponent (numeral a / numeral b)) (- 1022) - 52)
      in of_int (round_half_even (numeral a / numeral b / ulp)) * ulp)"
  "round_double (- (numeral a / numeral b)) =
     (let ulp = pow2 (max (exponent (- (numeral a / numeral b))) (- 1022) - 52)
      in of_int (round_half_even (- (numeral a / numeral b) / ulp)) * ulp)"
  "round_double (1 / numeral b) =
     (let ulp = pow2 (max (exponent (1 / numeral b)) (- 1022) - 52)
      in of_int (round_half_even (1 / numeral b / ulp)) * ulp)"
  "round_double (- (1 / numeral b)) =
     (let ulp = pow2 (max (exponent (- (1 / numeral b))) (- 1022) - 52)
      in of_int (round_half_even (- (1 / numeral b) / ulp)) * ulp)"
  by (simp_all only: round_double_nonzero round_double_def
        numeral_neq_zero neg_numeral_neq_zero divide_eq_0_iff neg_equal_0_iff_equal
        one_neq_zero zero_neq_one simp_thms if_True if_False)

lemmas float_defs =
  float_literal_def float_sub_def float_mul_def round_double_numeral exponent_def pow2_def
  round_half_even_def bit_length_numeral Let_def

text \<open>
  Some values as Python computes them: the literal \<^verbatim>\<open>0.1\<close>, the difference
  \<^verbatim>\<open>0.3 - 0.1\<close>, which is \<^verbatim>\<open>0.19999999999999998\<close>, two ties between neighbouring
  doubles above \<^verbatim>\<open>2**53\<close>, and the product \<^verbatim>\<open>0.75 * 1.2\<close>, which is
  \<^verbatim>\<open>0.8999999999999999\<close>.
\<close>

lemma round_double_examples:
  "float_literal (1 / 10) = 3602879701896397 / 36028797018963968"
  "float_sub (float_literal (3 / 10)) (float_literal (1 / 10)) =
     float_literal (19999999999999998 / 100000000000000000)"
  "round_double 9007199254740993 = 9007199254740992"
  "round_double 9007199254740995 = 9007199254740996"
  "float_mul (float_literal (75 / 100)) (float_literal (12 / 10)) =
     float_literal (8999999999999999 / 10000000000000000)"
  by (simp_all add: float_defs)

section \<open>Properties of trust validation\<close>

lemma evaluate_brokers_flagged:
  "\<exists>b \<in> set brokers. is_flagged b sender_id content \<Longrightarrow>
   evaluate_brokers brokers sender_id content sts cts = None"
  by (induction brokers arbitrary: sts cts) auto

lemma evaluate_brokers_unflagged:
  "\<forall>b \<in> set brokers. \<not> is_flagged b sender_id content \<Longrightarrow>
   evaluate_brokers brokers sender_id content sts cts =
     Some (sts @ map (\<lambda>b. evaluate_sender_trust b sender_id) brokers,
           cts @ map (\<lambda>b. evaluate_content_trust b content) brokers)"
  by (induction brokers arbitrary: sts cts) auto

lemma sum_list_unit_bounds:
  "\<forall>x \<in> set xs. 0 \<le> x \<and> x \<le> (1::real) \<Longrightarrow>
   0 \<le> sum_list xs \<and> sum_list xs \<le> real (length xs)"
  by (induction xs) auto

lemma mean_unit_bounds:
  assumes "\<forall>x \<in> set xs. 0 \<le> x \<and> x \<le> (1::real)"
  shows "0 \<le> sum_list xs / real (length xs) \<and> sum_list xs / real (length xs) \<le> 1"
proof (cases "xs = []")
  case True
  then show ?thesis by simp
next
  case False
  then have pos: "0 < real (length xs)" by simp
  from sum_list_unit_bounds[OF assms] pos show ?thesis
    by (simp add: divide_le_eq)
qed

text \<open>The rounded mean of scores in \<open>[0, 1]\<close> is not changed by the clamping of \<open>TrustLevel\<close>.\<close>

lemma clamp_rounded_mean:
  assumes "\<forall>x \<in> set xs. 0 \<le> x \<and> x \<le> (1::real)"
  shows "max 0 (min 1 (round_double (sum_list xs / real (length xs)))) =
         round_double (sum_list xs / real (length xs))"
proof -
  from mean_unit_bounds[OF assms]
  have "0 \<le> round_double (sum_list xs / real (length xs)) \<and>
        round_double (sum_list xs / real (length xs)) \<le> 1"
    by (intro round_double_unit) simp_all
  then show ?thesis by simp
qed

text \<open>
  What \<open>validate_inbound\<close> computes for a profile whose agreement count is positive:
  it never raises, and the means enter the comparison through \<open>TrustLevel_init\<close>,
  that is, clamped to \<open>[0, 1]\<close>.
\<close>

lemma validate_inbound_unfold:
  assumes m: "1 \<le> minimum_broker_agreement p"
  shows "validate_inbound p sender_id content =
     Inr (let ss = map (\<lambda>b. evaluate_sender_trust b sender_id) (trust_brokers p);
              cs = map (\<lambda>b. evaluate_content_trust b content) (trust_brokers p);
              m = minimum_broker_agreement p;
              tol = agreement_tolerance p;
              mean_s = round_double (sum_list ss / real (length ss));
              mean_c = round_double (sum_list cs / real (length cs))
          in int (length (trust_brokers p)) \<ge> m \<and>
             (\<forall>b \<in> set (trust_brokers p). \<not> is_flagged b sender_id content) \<and>
             int (length (filter (\<lambda>e. \<bar>float_sub e mean_s\<bar> \<le> tol) ss)) \<ge> m \<and>
             int (length (filter (\<lambda>e. \<bar>float_sub e mean_c\<bar> \<le> tol) cs)) \<ge> m \<and>
             meets_threshold (TrustLevel_init mean_s mean_c) (required_trust_threshold p))"
proof (cases "int (length (trust_brokers p)) < minimum_broker_agreement p")
  case True
  then show ?thesis by (simp add: validate_inbound_def Let_def)
next
  case enough: False
  with m have ne: "trust_brokers p \<noteq> []" by auto
  show ?thesis
  proof (cases "\<exists>b \<in> set (trust_brokers p). is_flagged b sender_id content")
    case True
    from evaluate_brokers_flagged[OF True] enough True show ?thesis
      by (auto simp add: validate_inbound_def Let_def)
  next
    case False
    then have nf: "\<forall>b \<in> set (trust_brokers p). \<not> is_flagged b sender_id content" by simp
    from evaluate_brokers_unflagged[OF nf, of "[]" "[]"] enough ne nf show ?thesis
      by (simp add: validate_inbound_def has_independent_agreement_def mean_def Let_def
               split: sum.splits bool.splits)
  qed
qed

lemma validate_inbound_total:
  "1 \<le> minimum_broker_agreement p \<Longrightarrow> \<exists>b. validate_inbound p sender_id content = Inr b"
  using validate_inbound_unfold[of p sender_id content] by blast

lemma TrustProfile_init_agreement:
  "2 \<le> minimum_broker_agreement (TrustProfile_init sl threshold brokers agreement tolerance)"
  by (simp add: TrustProfile_init_def DEFAULT_MINIMUM_BROKER_AGREEMENT_def)

lemma TrustProfile_init_brokers [simp]:
  "trust_brokers (TrustProfile_init sl threshold brokers agreement tolerance) = brokers"
  by (simp add: TrustProfile_init_def)

lemmas demo_trust_defs =
  demo_trust_profile_def demo_brokers_def demo_broker1_def demo_broker2_def demo_broker3_def
  as_broker_def SimpleTrustBroker_init_def set_sender_reputation_def flag_sender_def
  stb_evaluate_sender_trust_def stb_evaluate_content_trust_def stb_is_flagged_def
  MALICIOUS_CONTENT_PENALTY_def SUSPICIOUS_CONTENT_PENALTY_def VERIFIED_CONTENT_BONUS_def
  TrustProfile_init_def TrustLevel_init_def DEFAULT_MINIMUM_BROKER_AGREEMENT_def
  lower_def lower_char_def

lemma demo_trust_profile_agreement: "minimum_broker_agreement demo_trust_profile = 2"
  by (simp add: demo_trust_defs)

lemma demo_accepts:
  "validate_inbound demo_trust_profile ''sender-reliable'' ''verified research data'' = Inr True"
  by (simp add: validate_inbound_def has_independent_agreement_def mean_def meets_threshold_def
          demo_trust_defs float_defs)

lemma demo_vetoes:
  "validate_inbound demo_trust_profile ''sender-malicious'' ''some data'' = Inr False"
  by (simp add: validate_inbound_def demo_trust_defs)


subsection \<open>C1: the decision of \<open>validate_inbound\<close>\<close>

text \<open>
  Claim C1 says that \<open>validate_inbound\<close> returns \<open>True\<close> exactly when there are enough
  brokers, none of them flags the message, in each score sequence at least
  \<open>minimum_broker_agreement\<close> scores lie within \<open>agreement_tolerance\<close> of the sequence's
  arithmetic mean, and the two means are at least the required sender trust and the
  required content trust. Two inputs on which the code decides otherwise:

  \<^item> Under \<open>rounding_profile\<close> the scores of both sequences are \<^verbatim>\<open>0.05\<close>, \<^verbatim>\<open>0.06\<close> and
    \<^verbatim>\<open>0.34\<close>. The scores \<^verbatim>\<open>0.05\<close> and \<^verbatim>\<open>0.06\<close> lie within the tolerance \<^verbatim>\<open>0.1\<close> of the
    arithmetic mean, so all four conditions hold; the code compares with the mean as
    \<^verbatim>\<open>statistics.mean\<close> rounds it, \<^verbatim>\<open>0.15000000000000002\<close>, finds only \<^verbatim>\<open>0.06\<close> within the
    tolerance, and returns \<open>False\<close>.
  \<^item> Under \<open>negative_profile\<close> the mean of the sender scores is \<^verbatim>\<open>-0.5\<close>, below the
    required sender trust \<^verbatim>\<open>0.0\<close>; the code compares the threshold with
    \<^verbatim>\<open>TrustLevel(-0.5, -0.5)\<close>, whose constructor clamps both values to \<^verbatim>\<open>0.0\<close>, and
    returns \<open>True\<close>.
\<close>

theorem validate_inbound_counterexample:
  "(let p = rounding_profile;
        ss = map (\<lambda>b. evaluate_sender_trust b ''sender'') (trust_brokers p);
        cs = map (\<lambda>b. evaluate_content_trust b ''data'') (trust_brokers p);
        mean_s = sum_list ss / real (length ss);
        mean_c = sum_list cs / real (length cs)
    in validate_inbound p ''sender'' ''data'' = Inr False \<and>
       minimum_broker_agreement p \<le> int (length (trust_brokers p)) \<and>
       filter (\<lambda>b. is_flagged b ''sender'' ''data'') (trust_brokers p) = [] \<and>
       minimum_broker_agreement p \<le>
         int (length (filter (\<lambda>e. \<bar>e - mean_s\<bar> \<le> agreement_tolerance p) ss)) \<and>
       minimum_broker_agreement p \<le>
         int (length (filter (\<lambda>e. \<bar>e - mean_c\<bar> \<le> agreement_tolerance p) cs)) \<and>
       sender_trust (required_trust_threshold p) \<le> mean_s \<and>
       content_trust (required_trust_threshold p) \<le> mean_c) \<and>
   (let p = negative_profile;
        ss = map (\<lambda>b. evaluate_sender_trust b ''sender'') (trust_brokers p);
        mean_s = sum_list ss / real (length ss)
    in validate_inbound p ''sender'' ''data'' = Inr True \<and>
       mean_s < sender_trust (required_trust_threshold p))"
proof -
  have r: "validate_inbound rounding_profile ''sender'' ''data'' = Inr False"
    by (simp add: validate_inbound_def has_independent_agreement_def mean_def
          rounding_profile_def rounding_brokers_def as_broker_def SimpleTrustBroker_init_def
          stb_evaluate_sender_trust_def stb_evaluate_content_trust_def stb_is_flagged_def
          TrustProfile_init_def TrustLevel_init_def DEFAULT_MINIMUM_BROKER_AGREEMENT_def
          lower_def lower_char_def float_defs)
  have n: "validate_inbound negative_profile ''sender'' ''data'' = Inr True"
    by (simp add: validate_inbound_def has_independent_agreement_def mean_def meets_threshold_def
          negative_profile_def negative_broker_def
          TrustProfile_init_def TrustLevel_init_def DEFAULT_MINIMUM_BROKER_AGREEMENT_def
          float_defs)
  have rc: "let p = rounding_profile;
        ss = map (\<lambda>b. evaluate_sender_trust b ''sender'') (trust_brokers p);
        cs = map (\<lambda>b. evaluate_content_trust b ''data'') (trust_brokers p);
        mean_s = sum_list ss / real (length ss);
        mean_c = sum_list cs / real (length cs)
    in minimum_broker_agreement p \<le> int (length (trust_brokers p)) \<and>
       filter (\<lambda>b. is_flagged b ''sender'' ''data'') (trust_brokers p) = [] \<and>
       minimum_broker_agreement p \<le>
         int (length (filter (\<lambda>e. \<bar>e - mean_s\<bar> \<le> agreement_tolerance p) ss)) \<and>
       minimum_broker_agreement p \<le>
         int (length (filter (\<lambda>e. \<bar>e - mean_c\<bar> \<le> agreement_tolerance p) cs)) \<and>
       sender_trust (required_trust_threshold p) \<le> mean_s \<and>
       content_trust (required_trust_threshold p) \<le> mean_c"
    by (simp add: rounding_profile_def rounding_brokers_def as_broker_def SimpleTrustBroker_init_def
          stb_evaluate_sender_trust_def stb_evaluate_content_trust_def stb_is_flagged_def
          TrustProfile_init_def TrustLevel_init_def DEFAULT_MINIMUM_BROKER_AGREEMENT_def
          lower_def lower_char_def float_defs)
  have nc: "let p = negative_profile;
        ss = map (\<lambda>b. evaluate_sender_trust b ''sender'') (trust_brokers p);
        mean_s = sum_list ss / real (length ss)
    in mean_s < sender_trust (required_trust_threshold p)"
    by (simp add: negative_profile_def negative_broker_def TrustProfile_init_def
          TrustLevel_init_def)
  from r n rc nc show ?thesis by (simp add: Let_def)
qed

text \<open>
  Claim C1 as amended. For a profile built by the \<open>TrustProfile\<close> constructor,
  \<open>validate_inbound\<close> returns without raising, and it returns \<open>True\<close> exactly when: there
  are at least \<open>minimum_broker_agreement\<close> brokers; no broker flags the message; in each
  of the two score sequences at least \<open>minimum_broker_agreement\<close> scores \<open>e\<close> have
  \<open>\<bar>e - m\<bar> \<le> agreement_tolerance\<close> in float arithmetic, where \<open>m\<close> is the sequence's
  arithmetic mean rounded to a float and the difference \<open>e - m\<close> is rounded to a float;
  and the two rounded means, clamped to \<open>[0, 1]\<close>, are at least the required sender trust
  and the required content trust. When every broker scores within \<open>[0, 1]\<close>, as the
  \<open>ITrustBroker\<close> interface documents, the clamping changes nothing.
\<close>

theorem validate_inbound_characterisation:
  "let p = TrustProfile_init sl threshold brokers agreement tolerance;
       ss = map (\<lambda>b. evaluate_sender_trust b sender_id) (trust_brokers p);
       cs = map (\<lambda>b. evaluate_content_trust b content) (trust_brokers p);
       mean_s = round_double (sum_list ss / real (length ss));
       mean_c = round_double (sum_list cs / real (length cs))
   in validate_inbound p sender_id content =
        Inr (minimum_broker_agreement p \<le> int (length (trust_brokers p)) \<and>
             (\<forall>b \<in> set (trust_brokers p). \<not> is_flagged b sender_id content) \<and>
             minimum_broker_agreement p \<le>
               int (length (filter (\<lambda>e. \<bar>float_sub e mean_s\<bar> \<le> agreement_tolerance p) ss)) \<and>
             minimum_broker_agreement p \<le>
               int (length (filter (\<lambda>e. \<bar>float_sub e mean_c\<bar> \<le> agreement_tolerance p) cs)) \<and>
             sender_trust (required_trust_threshold p) \<le> max 0 (min 1 mean_s) \<and>
             content_trust (required_trust_threshold p) \<le> max 0 (min 1 mean_c)) \<and>
      ((\<forall>b \<in> set brokers.
           0 \<le> evaluate_sender_trust b sender_id \<and> evaluate_sender_trust b sender_id \<le> 1 \<and>
           0 \<le> evaluate_content_trust b content \<and> evaluate_content_trust b content \<le> 1) \<longrightarrow>
         max 0 (min 1 mean_s) = mean_s \<and> max 0 (min 1 mean_c) = mean_c)"
proof -
  define p where "p = TrustProfile_init sl threshold brokers agreement tolerance"
  define ss where "ss = map (\<lambda>b. evaluate_sender_trust b sender_id) (trust_brokers p)"
  define cs where "cs = map (\<lambda>b. evaluate_content_trust b content) (trust_brokers p)"
  define mean_s where "mean_s = round_double (sum_list ss / real (length ss))"
  define mean_c where "mean_c = round_double (sum_list cs / real (length cs))"
  have m1: "1 \<le> minimum_broker_agreement p"
    using TrustProfile_init_agreement[of sl threshold brokers agreement tolerance]
    by (simp add: p_def)
  have brokers: "trust_brokers p = brokers" by (simp add: p_def)
  have decision: "validate_inbound p sender_id content =
     Inr (minimum_broker_agreement p \<le> int (length (trust_brokers p)) \<and>
          (\<forall>b \<in> set (trust_brokers p). \<not> is_flagged b sender_id content) \<and>
          minimum_broker_agreement p \<le>
            int (length (filter (\<lambda>e. \<bar>float_sub e mean_s\<bar> \<le> agreement_tolerance p) ss)) \<and>
          minimum_broker_agreement p \<le>
            int (length (filter (\<lambda>e. \<bar>float_sub e mean_c\<bar> \<le> agreement_tolerance p) cs)) \<and>
          sender_trust (required_trust_threshold p) \<le> max 0 (min 1 mean_s) \<and>
          content_trust (required_trust_threshold p) \<le> max 0 (min 1 mean_c))"
    using validate_inbound_unfold[OF m1, of sender_id content]
    by (simp add: Let_def ss_def cs_def mean_s_def mean_c_def meets_threshold_def
          TrustLevel_init_def)
  have unit: "max 0 (min 1 mean_s) = mean_s \<and> max 0 (min 1 mean_c) = mean_c"
    if contract: "\<forall>b \<in> set brokers.
           0 \<le> evaluate_sender_trust b sender_id \<and> evaluate_sender_trust b sender_id \<le> 1 \<and>
           0 \<le> evaluate_content_trust b content \<and> evaluate_content_trust b content \<le> 1"
  proof -
    have "\<forall>x \<in> set ss. 0 \<le> x \<and> x \<le> 1" using contract by (auto simp: ss_def brokers)
    then have s: "max 0 (min 1 mean_s) = mean_s"
      unfolding mean_s_def by (rule clamp_rounded_mean)
    have "\<forall>x \<in> set cs. 0 \<le> x \<and> x \<le> 1" using contract by (auto simp: cs_def brokers)
    then have c: "max 0 (min 1 mean_c) = mean_c"
      unfolding mean_c_def by (rule clamp_rounded_mean)
    from s c show ?thesis by simp
  qed
  from decision unit show ?thesis
    unfolding Let_def p_def[symmetric] ss_def[symmetric] cs_def[symmetric]
      mean_s_def[symmetric] mean_c_def[symmetric]
    by blast
qed

text \<open>
  The demo's three brokers score the reliable sender and its verified content within
  \<open>[0, 1]\<close>. The demo profile accepts the message, so the agreement counts are reached
  and the rounded means themselves meet the required threshold.
\<close>

theorem validate_inbound_characterisation_witness:
  "let p = demo_trust_profile;
       ss = map (\<lambda>b. evaluate_sender_trust b ''sender-reliable'') (trust_brokers p);
       cs = map (\<lambda>b. evaluate_content_trust b ''verified research data'') (trust_brokers p);
       mean_s = round_double (sum_list ss / real (length ss));
       mean_c = round_double (sum_list cs / real (length cs))
   in validate_inbound p ''sender-reliable'' ''verified research data'' = Inr True \<and>
      minimum_broker_agreement p \<le> int (length (trust_brokers p)) \<and>
      minimum_broker_agreement p \<le>
        int (length (filter (\<lambda>e. \<bar>float_sub e mean_s\<bar> \<le> agreement_tolerance p) ss)) \<and>
      minimum_broker_agreement p \<le>
        int (length (filter (\<lambda>e. \<bar>float_sub e mean_c\<bar> \<le> agreement_tolerance p) cs)) \<and>
      sender_trust (required_trust_threshold p) \<le> mean_s \<and>
      content_trust (required_trust_threshold p) \<le> mean_c"
proof -
  define p where "p = demo_trust_profile"
  define ss where "ss = map (\<lambda>b. evaluate_sender_trust b ''sender-reliable'') (trust_brokers p)"
  define cs where
    "cs = map (\<lambda>b. evaluate_content_trust b ''verified research data'') (trust_brokers p)"
  define mean_s where "mean_s = round_double (sum_list ss / real (length ss))"
  define mean_c where "mean_c = round_double (sum_list cs / real (length cs))"
  have contract: "\<forall>b \<in> set demo_brokers.
        0 \<le> evaluate_sender_trust b ''sender-reliable'' \<and>
        evaluate_sender_trust b ''sender-reliable'' \<le> 1 \<and>
        0 \<le> evaluate_content_trust b ''verified research data'' \<and>
        evaluate_content_trust b ''verified research data'' \<le> 1"
    by (simp add: demo_trust_defs float_defs)
  note th = validate_inbound_characterisation
      [of INTERNAL "TrustLevel_init (float_literal (6 / 10)) (float_literal (6 / 10))"
          demo_brokers 2 "float_literal (15 / 100)" "''sender-reliable''"
          "''verified research data''", unfolded Let_def, folded demo_trust_profile_def,
       folded p_def, folded ss_def cs_def, folded mean_s_def mean_c_def]
  have acc: "validate_inbound p ''sender-reliable'' ''verified research data'' = Inr True"
    unfolding p_def by (rule demo_accepts)
  from th[THEN conjunct2, THEN mp, OF contract]
  have clamp: "max 0 (min 1 mean_s) = mean_s" "max 0 (min 1 mean_c) = mean_c"
    by blast+
  from th[THEN conjunct1] acc clamp
  have "minimum_broker_agreement p \<le> int (length (trust_brokers p)) \<and>
      minimum_broker_agreement p \<le>
        int (length (filter (\<lambda>e. \<bar>float_sub e mean_s\<bar> \<le> agreement_tolerance p) ss)) \<and>
      minimum_broker_agreement p \<le>
        int (length (filter (\<lambda>e. \<bar>float_sub e mean_c\<bar> \<le> agreement_tolerance p) cs)) \<and>
      sender_trust (required_trust_threshold p) \<le> mean_s \<and>
      content_trust (required_trust_threshold p) \<le> mean_c"
    by simp
  with acc show ?thesis
    unfolding Let_def p_def[symmetric] ss_def[symmetric] cs_def[symmetric]
      mean_s_def[symmetric] mean_c_def[symmetric]
    by simp
qed

subsection \<open>C2: a single flag vetoes\<close>

text \<open>
  Claim C2. If at least one broker of the profile flags \<open>(sender_id, content)\<close>, then
  \<open>validate_inbound\<close> returns \<open>False\<close>, whatever scores the brokers give.
\<close>

theorem veto_dominance:
  "\<exists>b \<in> set (trust_brokers p). is_flagged b sender_id content \<Longrightarrow>
   validate_inbound p sender_id content = Inr False"
  by (simp add: validate_inbound_def evaluate_brokers_flagged)

text \<open>
  In the demo the first broker has flagged \<open>sender-malicious\<close>; the other two score the
  sender at their baselines.
\<close>

theorem veto_dominance_witness:
  "(\<exists>b \<in> set (trust_brokers demo_trust_profile). is_flagged b ''sender-malicious'' ''some data'') \<and>
   validate_inbound demo_trust_profile ''sender-malicious'' ''some data'' = Inr False"
proof -
  have flagged:
    "\<exists>b \<in> set (trust_brokers demo_trust_profile). is_flagged b ''sender-malicious'' ''some data''"
    by (simp add: demo_trust_defs)
  from flagged veto_dominance[OF flagged] show ?thesis by simp
qed

subsection \<open>C9: raising the threshold never turns a reject into an accept\<close>

text \<open>
  Claim C9. Let two profiles differ only in the required trust threshold, \<open>T\<close> in one and
  \<open>T'\<close> in the other, with \<open>T\<close> pointwise at most \<open>T'\<close>. For the same brokers, sender and
  content, if \<open>validate_inbound\<close> accepts under \<open>T'\<close> then it accepts under \<open>T\<close>.
\<close>

theorem threshold_monotonicity:
  assumes "sender_trust T \<le> sender_trust T'"
    and "content_trust T \<le> content_trust T'"
    and "validate_inbound (p\<lparr>required_trust_threshold := T'\<rparr>) sender_id content = Inr True"
  shows "validate_inbound (p\<lparr>required_trust_threshold := T\<rparr>) sender_id content = Inr True"
  using assms
  by (auto simp add: validate_inbound_def has_independent_agreement_def meets_threshold_def Let_def
        split: if_splits option.splits sum.splits bool.splits)


text \<open>The demo profile with the threshold raised from \<open>(0.6, 0.6)\<close> to \<open>(0.7, 0.8)\<close>.\<close>

theorem threshold_monotonicity_witness:
  "sender_trust (TrustLevel_init (float_literal (6 / 10)) (float_literal (6 / 10))) \<le>
     sender_trust (TrustLevel_init (float_literal (7 / 10)) (float_literal (8 / 10))) \<and>
   content_trust (TrustLevel_init (float_literal (6 / 10)) (float_literal (6 / 10))) \<le>
     content_trust (TrustLevel_init (float_literal (7 / 10)) (float_literal (8 / 10))) \<and>
   validate_inbound
     (demo_trust_profile\<lparr>required_trust_threshold :=
        TrustLevel_init (float_literal (7 / 10)) (float_literal (8 / 10))\<rparr>)
     ''sender-reliable'' ''verified research data'' = Inr True \<and>
   validate_inbound
     (demo_trust_profile\<lparr>required_trust_threshold :=
        TrustLevel_init (float_literal (6 / 10)) (float_literal (6 / 10))\<rparr>)
     ''sender-reliable'' ''verified research data'' = Inr True"
proof -
  have a: "sender_trust (TrustLevel_init (float_literal (6 / 10)) (float_literal (6 / 10))) \<le>
     sender_trust (TrustLevel_init (float_literal (7 / 10)) (float_literal (8 / 10)))"
    by (simp add: TrustLevel_init_def float_defs)
  have b: "content_trust (TrustLevel_init (float_literal (6 / 10)) (float_literal (6 / 10))) \<le>
     content_trust (TrustLevel_init (float_literal (7 / 10)) (float_literal (8 / 10)))"
    by (simp add: TrustLevel_init_def float_defs)
  have c: "validate_inbound
     (demo_trust_profile\<lparr>required_trust_threshold :=
        TrustLevel_init (float_literal (7 / 10)) (float_literal (8 / 10))\<rparr>)
     ''sender-reliable'' ''verified research data'' = Inr True"
    by (simp add: validate_inbound_def has_independent_agreement_def mean_def meets_threshold_def
          demo_trust_defs float_defs)
  from a b c threshold_monotonicity[OF a b c] show ?thesis by (intro conjI)
qed

section \<open>Properties of authorizations\<close>

subsection \<open>C6: what a grant authorizes\<close>

text \<open>
  Claim C6. \<open>is_authorized\<close> holds for \<open>(from_id, to_id)\<close> exactly when the grant is not
  expired and the pair is the grant's own \<open>(from_agent_id, to_agent_id)\<close>, or the grant
  is bidirectional and the pair is the reversed one. In particular a grant that is not
  bidirectional, between two distinct agents, never authorizes the reverse direction, and
  an unexpired bidirectional grant authorizes both directions.
\<close>

theorem is_authorized_iff:
  "(is_authorized now g from_id to_id \<longleftrightarrow>
      \<not> is_expired now g \<and>
      ((from_id, to_id) = (from_agent_id g, to_agent_id g) \<or>
       is_bidirectional g \<and> (from_id, to_id) = (to_agent_id g, from_agent_id g))) \<and>
   (\<not> is_bidirectional g \<and> from_agent_id g \<noteq> to_agent_id g \<longrightarrow>
      \<not> is_authorized now g (to_agent_id g) (from_agent_id g)) \<and>
   (is_bidirectional g \<and> \<not> is_expired now g \<longrightarrow>
      is_authorized now g (from_agent_id g) (to_agent_id g) \<and>
      is_authorized now g (to_agent_id g) (from_agent_id g))"
proof (intro conjI)
  show "is_authorized now g from_id to_id \<longleftrightarrow>
      \<not> is_expired now g \<and>
      ((from_id, to_id) = (from_agent_id g, to_agent_id g) \<or>
       is_bidirectional g \<and> (from_id, to_id) = (to_agent_id g, from_agent_id g))"
    by (simp add: is_authorized_def) blast
  show "\<not> is_bidirectional g \<and> from_agent_id g \<noteq> to_agent_id g \<longrightarrow>
      \<not> is_authorized now g (to_agent_id g) (from_agent_id g)"
    by (simp add: is_authorized_def)
  show "is_bidirectional g \<and> \<not> is_expired now g \<longrightarrow>
      is_authorized now g (from_agent_id g) (to_agent_id g) \<and>
      is_authorized now g (to_agent_id g) (from_agent_id g)"
    by (simp add: is_authorized_def)
qed

text \<open>A one-way and a two-way grant from \<open>A\<close> to \<open>B\<close>, both asked half-way through their lifetime.\<close>

theorem is_authorized_iff_witness:
  "(let g = create 1000 ''A'' ''B'' False None (Some 60) in
      \<not> is_bidirectional g \<and> from_agent_id g \<noteq> to_agent_id g \<and>
      is_authorized 1030 g ''A'' ''B'' \<and> \<not> is_authorized 1030 g ''B'' ''A'') \<and>
   (let g = create 1000 ''A'' ''B'' True None (Some 60) in
      is_bidirectional g \<and> \<not> is_expired 1030 g \<and>
      is_authorized 1030 g ''A'' ''B'' \<and> is_authorized 1030 g ''B'' ''A'')"
  using is_authorized_iff[of 1030 "create 1000 ''A'' ''B'' False None (Some 60)" "''A''" "''B''"]
        is_authorized_iff[of 1030 "create 1000 ''A'' ''B'' True None (Some 60)" "''A''" "''B''"]
  by (simp add: create_def is_expired_def Let_def)

section \<open>Properties of the sub-agent life cycle\<close>

lemma demo_created_status: "status demo_created = CREATED"
  by (simp add: demo_created_def SubAgent_init_def log_activity_def)

lemma demo_active_status: "status demo_active = ACTIVE"
  by (simp add: demo_active_def start_mission_def demo_created_status log_activity_def)

lemma demo_retired_status: "status demo_retired = RETIRED"
  by (simp add: demo_retired_def retire_def demo_active_status log_activity_def)

subsection \<open>C7: operations outside their legal states\<close>

text \<open>
  Claim C7. \<open>start_mission\<close> raises unless the status is \<open>CREATED\<close>, \<open>process_task\<close>
  raises unless it is \<open>ACTIVE\<close>, \<open>complete_mission\<close> raises unless it is \<open>ACTIVE\<close> or
  \<open>PAUSED\<close>; a raise leaves the object as it was. \<open>receive_information\<close> and
  \<open>send_information\<close> return \<open>False\<close> without raising when the status is not \<open>ACTIVE\<close>,
  and change neither the status nor the local state. \<open>retire\<close> always ends in \<open>RETIRED\<close>,
  and on a retired object it changes nothing. Hence on a retired object every operation
  raises, returns \<open>False\<close> or is a no-op, and the status stays \<open>RETIRED\<close>.
\<close>

theorem lifecycle_legality:
  "(status a \<noteq> CREATED \<longrightarrow> (\<exists>msg. start_mission now a = (Inl (RuntimeError msg), a))) \<and>
   (status a = CREATED \<longrightarrow>
      fst (start_mission now a) = Inr () \<and> status (snd (start_mission now a)) = ACTIVE) \<and>
   (status a \<noteq> ACTIVE \<longrightarrow> (\<exists>msg. process_task now task a = (Inl (RuntimeError msg), a))) \<and>
   (status a = ACTIVE \<longrightarrow>
      (\<exists>result. fst (process_task now task a) = Inr result) \<and>
      status (snd (process_task now task a)) = ACTIVE) \<and>
   (status a \<notin> {ACTIVE, PAUSED} \<longrightarrow>
      (\<exists>msg. complete_mission now a = (Inl (RuntimeError msg), a))) \<and>
   (status a \<in> {ACTIVE, PAUSED} \<longrightarrow>
      fst (complete_mission now a) = Inr () \<and> status (snd (complete_mission now a)) = COMPLETED) \<and>
   (status a \<noteq> ACTIVE \<longrightarrow>
      fst (receive_information now sender_id information a) = Inr False \<and>
      status (snd (receive_information now sender_id information a)) = status a \<and>
      local_state (snd (receive_information now sender_id information a)) = local_state a) \<and>
   (status a \<noteq> ACTIVE \<longrightarrow>
      fst (send_information now recipient_id information a) = False \<and>
      status (snd (send_information now recipient_id information a)) = status a \<and>
      local_state (snd (send_information now recipient_id information a)) = local_state a) \<and>
   status (retire now a) = RETIRED \<and>
   (status a = RETIRED \<longrightarrow> retire now a = a)"
proof (intro conjI)
  show "status (retire now a) = RETIRED"
    by (simp add: retire_def log_activity_def)
qed (simp_all add: start_mission_def process_task_def complete_mission_def
        receive_information_def send_information_def retire_def log_activity_def Let_def)

text \<open>The three stages of the demo sub-agent exercise every hypothesis.\<close>

theorem lifecycle_legality_witness:
  "status demo_created = CREATED \<and>
   fst (start_mission 1001 demo_created) = Inr () \<and>
   status demo_active = ACTIVE \<and>
   (\<exists>result. fst (process_task 1002 ''analyze'' demo_active) = Inr result) \<and>
   fst (complete_mission 1002 demo_active) = Inr () \<and>
   status demo_retired = RETIRED \<and>
   (\<exists>msg. start_mission 1003 demo_retired = (Inl (RuntimeError msg), demo_retired)) \<and>
   (\<exists>msg. process_task 1003 ''analyze'' demo_retired = (Inl (RuntimeError msg), demo_retired)) \<and>
   (\<exists>msg. complete_mission 1003 demo_retired = (Inl (RuntimeError msg), demo_retired)) \<and>
   fst (receive_information 1003 ''sender-reliable'' ''verified research data'' demo_retired)
     = Inr False \<and>
   fst (send_information 1003 ''SA-Analysis-0b'' ''verified research data'' demo_retired) = False \<and>
   retire 1003 demo_retired = demo_retired"
proof -
  note c = lifecycle_legality[of demo_created 1001 "''analyze''" "''sender-reliable''"
      "''verified research data''" "''SA-Analysis-0b''"]
  note a = lifecycle_legality[of demo_active 1002 "''analyze''" "''sender-reliable''"
      "''verified research data''" "''SA-Analysis-0b''"]
  note r = lifecycle_legality[of demo_retired 1003 "''analyze''" "''sender-reliable''"
      "''verified research data''" "''SA-Analysis-0b''"]
  have r1: "status demo_retired \<noteq> CREATED" "status demo_retired \<noteq> ACTIVE"
    "status demo_retired \<notin> {ACTIVE, PAUSED}"
    by (simp_all add: demo_retired_status)
  have a1: "status demo_active \<in> {ACTIVE, PAUSED}" by (simp add: demo_active_status)
  from c demo_created_status have c2: "fst (start_mission 1001 demo_created) = Inr ()" by blast
  from a demo_active_status a1
  have a2: "\<exists>result. fst (process_task 1002 ''analyze'' demo_active) = Inr result"
    and a3: "fst (complete_mission 1002 demo_active) = Inr ()" by blast+
  from r r1 demo_retired_status
  have r2: "\<exists>msg. start_mission 1003 demo_retired = (Inl (RuntimeError msg), demo_retired)"
    and r3: "\<exists>msg. process_task 1003 ''analyze'' demo_retired = (Inl (RuntimeError msg), demo_retired)"
    and r4: "\<exists>msg. complete_mission 1003 demo_retired = (Inl (RuntimeError msg), demo_retired)"
    and r5: "fst (receive_information 1003 ''sender-reliable'' ''verified research data'' demo_retired)
               = Inr False"
    and r6: "fst (send_information 1003 ''SA-Analysis-0b'' ''verified research data'' demo_retired) = False"
    and r7: "retire 1003 demo_retired = demo_retired"
    by blast+
  from demo_created_status c2 demo_active_status a2 a3 demo_retired_status r2 r3 r4 r5 r6 r7
  show ?thesis by (intro conjI)
qed

lemma demo_active_profile: "trust_profile demo_active = demo_trust_profile"
  by (simp add: demo_active_def demo_created_def start_mission_def SubAgent_init_def log_activity_def)

lemma demo_active_local_state: "local_state demo_active = Map.empty"
  by (simp add: demo_active_def demo_created_def start_mission_def SubAgent_init_def log_activity_def)

subsection \<open>C10: the local state after \<open>receive_information\<close>\<close>

text \<open>
  Claim C10. \<open>receive_information\<close> returns \<open>False\<close> exactly when the sub-agent is not
  \<open>ACTIVE\<close> or trust validation rejects. Whenever it returns \<open>False\<close> the local state is
  what it was before the call; when it returns \<open>True\<close> the local state has gained the
  information under the key \<open>received now\<close>; so a changed local state means the call
  returned \<open>True\<close>. In both cases the activity log has gained exactly one entry.
\<close>

theorem receive_information_local_state:
  "(fst (receive_information now sender_id information a) = Inr False \<longleftrightarrow>
      status a \<noteq> ACTIVE \<or>
      validate_inbound (trust_profile a) sender_id information = Inr False) \<and>
   (fst (receive_information now sender_id information a) = Inr False \<longrightarrow>
      local_state (snd (receive_information now sender_id information a)) = local_state a) \<and>
   (fst (receive_information now sender_id information a) = Inr True \<longrightarrow>
      local_state (snd (receive_information now sender_id information a)) =
        (local_state a)(received now \<mapsto> information)) \<and>
   (local_state (snd (receive_information now sender_id information a)) \<noteq> local_state a \<longrightarrow>
      fst (receive_information now sender_id information a) = Inr True) \<and>
   (\<forall>b. fst (receive_information now sender_id information a) = Inr b \<longrightarrow>
      (\<exists>entry. activity_log (snd (receive_information now sender_id information a)) =
                 activity_log a @ [(now, entry)]))"
  by (simp add: receive_information_def log_activity_def split: sum.splits)

text \<open>
  The active demo sub-agent rejects the flagged sender and accepts the reliable one.
\<close>

theorem receive_information_local_state_witness:
  "fst (receive_information 1005 ''sender-malicious'' ''some data'' demo_active) = Inr False \<and>
   local_state (snd (receive_information 1005 ''sender-malicious'' ''some data'' demo_active)) =
     local_state demo_active \<and>
   fst (receive_information 1005 ''sender-reliable'' ''verified research data'' demo_active) =
     Inr True \<and>
   local_state (snd (receive_information 1005 ''sender-reliable'' ''verified research data''
                       demo_active)) =
     (local_state demo_active)(received 1005 \<mapsto> ''verified research data'') \<and>
   (\<exists>entry. activity_log (snd (receive_information 1005 ''sender-malicious'' ''some data''
                                  demo_active)) =
      activity_log demo_active @ [(1005, entry)]) \<and>
   (\<exists>entry. activity_log (snd (receive_information 1005 ''sender-reliable''
                                  ''verified research data'' demo_active)) =
      activity_log demo_active @ [(1005, entry)])"
proof -
  note rej = receive_information_local_state
               [of 1005 "''sender-malicious''" "''some data''" demo_active]
  note acc = receive_information_local_state
               [of 1005 "''sender-reliable''" "''verified research data''" demo_active]
  have r1: "fst (receive_information 1005 ''sender-malicious'' ''some data'' demo_active) = Inr False"
    by (simp add: receive_information_def demo_active_status demo_active_profile demo_vetoes)
  have a1: "fst (receive_information 1005 ''sender-reliable'' ''verified research data''
                   demo_active) = Inr True"
    by (simp add: receive_information_def demo_active_status demo_active_profile demo_accepts)
  note r2 = rej[THEN conjunct2, THEN conjunct1, rule_format, OF r1]
  note r3 = rej[THEN conjunct2, THEN conjunct2, THEN conjunct2, THEN conjunct2, rule_format, OF r1]
  note a2 = acc[THEN conjunct2, THEN conjunct2, THEN conjunct1, rule_format, OF a1]
  note a3 = acc[THEN conjunct2, THEN conjunct2, THEN conjunct2, THEN conjunct2, rule_format, OF a1]
  from r1 r2 a1 a2 r3 a3 show ?thesis by (intro conjI)
qed

section \<open>Properties of the coordinator\<close>

lemma log_event_simps [simp]:
  "objects (log_event now d w) = objects w"
  "allocated (log_event now d w) = allocated w"
  "fla_id (fla (log_event now d w)) = fla_id (fla w)"
  "default_trust_profile (fla (log_event now d w)) = default_trust_profile (fla w)"
  "active_sub_agents (fla (log_event now d w)) = active_sub_agents (fla w)"
  "communication_authorizations (fla (log_event now d w)) = communication_authorizations (fla w)"
  "event_log (fla (log_event now d w)) =
     event_log (fla w) @ [(now, ''[FLA-'' @ fla_id (fla w) @ ''] '' @ d)]"
  by (simp_all add: log_event_def)

lemma invoke_simps [simp]:
  "fst (invoke addr method w) = fst (method (objects w addr))"
  "fla (snd (invoke addr method w)) = fla w"
  "allocated (snd (invoke addr method w)) = allocated w"
  "objects (snd (invoke addr method w)) = (objects w)(addr := snd (method (objects w addr)))"
  by (simp_all add: invoke_def split: prod.splits)

lemma send_information_simps [simp]:
  "fst (send_information now recipient_id information a) = (status a = ACTIVE)"
  "status (snd (send_information now recipient_id information a)) = status a"
  "trust_profile (snd (send_information now recipient_id information a)) = trust_profile a"
  "local_state (snd (send_information now recipient_id information a)) = local_state a"
  by (simp_all add: send_information_def log_activity_def)

lemma fst_receive_information:
  "fst (receive_information now sender_id information a) =
     (if status a \<noteq> ACTIVE then Inr False
      else validate_inbound (trust_profile a) sender_id information)"
  by (auto simp add: receive_information_def split: sum.splits)

lemma receive_information_status [simp]:
  "status (snd (receive_information now sender_id information a)) = status a"
  by (simp add: receive_information_def log_activity_def split: sum.splits)

text \<open>The value \<open>mediate_communication\<close> returns, read off the state it starts in.\<close>

lemma fst_mediate_communication:
  "fst (mediate_communication now from_id to_id information w) =
     (if \<not> (\<exists>g \<in> set (communication_authorizations (fla w)). is_authorized now g from_id to_id)
        then Inr False
      else case active_sub_agents (fla w) from_id of
        None \<Rightarrow> Inr False
      | Some sender \<Rightarrow>
          (case active_sub_agents (fla w) to_id of
             None \<Rightarrow> Inr False
           | Some receiver \<Rightarrow>
               if status (objects w sender) \<noteq> ACTIVE then Inr False
               else if status (objects w receiver) \<noteq> ACTIVE then Inr False
               else validate_inbound (trust_profile (objects w receiver)) from_id information))"
proof (cases "find (\<lambda>auth. is_authorized now auth from_id to_id)
                (communication_authorizations (fla w))")
  case None
  then have "\<not> (\<exists>g \<in> set (communication_authorizations (fla w)). is_authorized now g from_id to_id)"
    by (simp add: find_None_iff)
  with None show ?thesis by (simp add: mediate_communication_def)
next
  case (Some g)
  then have ex: "\<exists>g \<in> set (communication_authorizations (fla w)). is_authorized now g from_id to_id"
    by (auto simp add: find_Some_iff)
  show ?thesis
  proof (cases "active_sub_agents (fla w) from_id")
    case None
    with Some ex show ?thesis by (simp add: mediate_communication_def)
  next
    case sender: (Some s)
    show ?thesis
    proof (cases "active_sub_agents (fla w) to_id")
      case None
      with Some ex sender show ?thesis by (simp add: mediate_communication_def)
    next
      case receiver: (Some r)
      obtain sent w1 where inv1: "invoke s (send_information now to_id information) w = (sent, w1)"
        by (cases "invoke s (send_information now to_id information) w")
      have sent: "sent = (status (objects w s) = ACTIVE)"
        using invoke_simps(1)[of s "send_information now to_id information" w] inv1 by simp
      have w1: "objects w1 = (objects w)(s := snd (send_information now to_id information (objects w s)))"
        using invoke_simps(4)[of s "send_information now to_id information" w] inv1 by simp
      have st: "status (objects w1 r) = status (objects w r)"
        and tp: "trust_profile (objects w1 r) = trust_profile (objects w r)"
        by (simp_all add: w1)
      obtain res w2 where inv2:
        "invoke r (receive_information now from_id information) w1 = (res, w2)"
        by (cases "invoke r (receive_information now from_id information) w1")
      have res: "res = (if status (objects w r) \<noteq> ACTIVE then Inr False
                        else validate_inbound (trust_profile (objects w r)) from_id information)"
        using invoke_simps(1)[of r "receive_information now from_id information" w1] inv2
        by (simp add: fst_receive_information st tp)
      show ?thesis
        using Some ex sender receiver inv1 inv2 sent res
        by (simp add: mediate_communication_def split: sum.splits)
    qed
  qed
qed

text \<open>The coordinator's own fields that \<open>mediate_communication\<close> leaves alone.\<close>

lemma mediate_communication_frame:
  "active_sub_agents (fla (snd (mediate_communication now from_id to_id information w))) =
     active_sub_agents (fla w) \<and>
   communication_authorizations (fla (snd (mediate_communication now from_id to_id information w))) =
     communication_authorizations (fla w) \<and>
   fla_id (fla (snd (mediate_communication now from_id to_id information w))) = fla_id (fla w)"
proof (cases "find (\<lambda>auth. is_authorized now auth from_id to_id)
                (communication_authorizations (fla w))")
  case None
  then show ?thesis by (simp add: mediate_communication_def)
next
  case (Some g)
  show ?thesis
  proof (cases "active_sub_agents (fla w) from_id")
    case None
    with Some show ?thesis by (simp add: mediate_communication_def)
  next
    case sender: (Some s)
    show ?thesis
    proof (cases "active_sub_agents (fla w) to_id")
      case None
      with Some sender show ?thesis by (simp add: mediate_communication_def)
    next
      case receiver: (Some r)
      obtain sent w1 where inv1: "invoke s (send_information now to_id information) w = (sent, w1)"
        by (cases "invoke s (send_information now to_id information) w")
      have f1: "fla w1 = fla w"
        using invoke_simps(2)[of s "send_information now to_id information" w] inv1 by simp
      obtain res w2 where inv2:
        "invoke r (receive_information now from_id information) w1 = (res, w2)"
        by (cases "invoke r (receive_information now from_id information) w1")
      have f2: "fla w2 = fla w"
        using invoke_simps(2)[of r "receive_information now from_id information" w1] inv2 f1
        by simp
      show ?thesis
        using Some sender receiver inv1 inv2 f1 f2
        by (simp add: mediate_communication_def split: sum.splits)
    qed
  qed
qed

text \<open>The entry \<open>mediate_communication\<close> appends to the event log, unless it raises.\<close>

lemma event_log_mediate_communication:
  "event_log (fla (snd (mediate_communication now from_id to_id information w))) =
     (case fst (mediate_communication now from_id to_id information w) of
        Inl e \<Rightarrow> event_log (fla w)
      | Inr b \<Rightarrow>
          event_log (fla w) @
            [(now, ''[FLA-'' @ fla_id (fla w) @ ''] '' @
               (if \<not> (\<exists>g \<in> set (communication_authorizations (fla w)).
                         is_authorized now g from_id to_id)
                  then ''Communication blocked: '' @ from_id @ '' -> '' @ to_id @
                       '' - not authorized''
                else case active_sub_agents (fla w) from_id of
                  None \<Rightarrow> ''Communication failed: sender '' @ from_id @ '' not found''
                | Some sender \<Rightarrow>
                    (case active_sub_agents (fla w) to_id of
                       None \<Rightarrow> ''Communication failed: receiver '' @ to_id @ '' not found''
                     | Some receiver \<Rightarrow>
                         if status (objects w sender) \<noteq> ACTIVE
                           then ''Communication failed: sender rejected outbound''
                         else ''Communication mediated: '' @ from_id @ '' -> '' @ to_id @
                              '' - success: '' @ str_bool b)))])"
proof (cases "find (\<lambda>auth. is_authorized now auth from_id to_id)
                (communication_authorizations (fla w))")
  case None
  then have "\<not> (\<exists>g \<in> set (communication_authorizations (fla w)). is_authorized now g from_id to_id)"
    by (simp add: find_None_iff)
  with None show ?thesis by (simp add: mediate_communication_def)
next
  case (Some g)
  then have ex: "\<exists>g \<in> set (communication_authorizations (fla w)). is_authorized now g from_id to_id"
    by (auto simp add: find_Some_iff)
  show ?thesis
  proof (cases "active_sub_agents (fla w) from_id")
    case None
    with Some ex show ?thesis by (simp add: mediate_communication_def)
  next
    case sender: (Some s)
    show ?thesis
    proof (cases "active_sub_agents (fla w) to_id")
      case None
      with Some ex sender show ?thesis by (simp add: mediate_communication_def)
    next
      case receiver: (Some r)
      obtain sent w1 where inv1: "invoke s (send_information now to_id information) w = (sent, w1)"
        by (cases "invoke s (send_information now to_id information) w")
      have sent: "sent = (status (objects w s) = ACTIVE)"
        using invoke_simps(1)[of s "send_information now to_id information" w] inv1 by simp
      have f1: "fla w1 = fla w"
        using invoke_simps(2)[of s "send_information now to_id information" w] inv1 by simp
      obtain res w2 where inv2:
        "invoke r (receive_information now from_id information) w1 = (res, w2)"
        by (cases "invoke r (receive_information now from_id information) w1")
      have f2: "fla w2 = fla w"
        using invoke_simps(2)[of r "receive_information now from_id information" w1] inv2 f1
        by simp
      show ?thesis
        using Some ex sender receiver inv1 inv2 sent f1 f2
        by (simp add: mediate_communication_def split: sum.splits)
    qed
  qed
qed

lemma receiver_after_send [simp]:
  "status (objects (snd (invoke s (send_information now to_id information) w)) r) =
     status (objects w r)"
  "trust_profile (objects (snd (invoke s (send_information now to_id information) w)) r) =
     trust_profile (objects w r)"
  by simp_all

lemma find_first:
  "\<exists>x \<in> set xs. P x \<Longrightarrow>
   \<exists>i < length xs. find P xs = Some (xs ! i) \<and> P (xs ! i) \<and> (\<forall>j < i. \<not> P (xs ! j))"
proof -
  assume "\<exists>x \<in> set xs. P x"
  then obtain x where "find P xs = Some x"
    by (cases "find P xs") (auto simp add: find_None_iff)
  then show ?thesis by (auto simp add: find_Some_iff)
qed

lemma authorize_communication_simps [simp]:
  "objects (authorize_communication now from_id to_id bidirectional scopes_arg ttl w) = objects w"
  "allocated (authorize_communication now from_id to_id bidirectional scopes_arg ttl w) =
     allocated w"
  "active_sub_agents (fla (authorize_communication now from_id to_id bidirectional scopes_arg ttl w)) =
     active_sub_agents (fla w)"
  "fla_id (fla (authorize_communication now from_id to_id bidirectional scopes_arg ttl w)) =
     fla_id (fla w)"
  "communication_authorizations
     (fla (authorize_communication now from_id to_id bidirectional scopes_arg ttl w)) =
     communication_authorizations (fla w) @
       [create now from_id to_id bidirectional
          (case scopes_arg of None \<Rightarrow> None | Some sc \<Rightarrow> if sc \<noteq> [] then Some sc else None) ttl]"
  by (simp_all add: authorize_communication_def Let_def)

text \<open>The demo's coordinator with its two sub-agents.\<close>

lemmas demo_world_defs =
  demo_world_def demo_initial_def perform_all.simps perform.simps create_sub_agent_def
  invoke_def start_mission_def SubAgent_init_def log_activity_def log_event_def
  FrontLineAgent_init_def Let_def

lemma demo_world_active:
  "active_sub_agents (fla demo_world) ''SA-Research-0a'' = Some 0"
  "active_sub_agents (fla demo_world) ''SA-Analysis-0b'' = Some 1"
  by (simp_all add: demo_world_defs)

lemma demo_world_objects:
  "status (objects demo_world 0) = ACTIVE"
  "status (objects demo_world 1) = ACTIVE"
  "trust_profile (objects demo_world 0) = demo_trust_profile"
  "trust_profile (objects demo_world 1) = demo_trust_profile"
  by (simp_all add: demo_world_defs)

lemma demo_world_fla:
  "communication_authorizations (fla demo_world) = []"
  "fla_id (fla demo_world) = ''FLA-001''"
  by (simp_all add: demo_world_defs)

lemma demo_lower:
  "lower ''Research findings: market trends are positive'' =
     ''research findings: market trends are positive''"
  by code_simp

lemma demo_findings_accepted:
  "validate_inbound demo_trust_profile ''SA-Research-0a''
     ''Research findings: market trends are positive'' = Inr True"
  by (simp add: validate_inbound_def has_independent_agreement_def mean_def meets_threshold_def
        demo_trust_profile_def demo_brokers_def demo_broker1_def demo_broker2_def demo_broker3_def
        as_broker_def SimpleTrustBroker_init_def set_sender_reputation_def flag_sender_def
        stb_evaluate_sender_trust_def stb_evaluate_content_trust_def stb_is_flagged_def
        MALICIOUS_CONTENT_PENALTY_def SUSPICIOUS_CONTENT_PENALTY_def VERIFIED_CONTENT_BONUS_def
        TrustProfile_init_def TrustLevel_init_def DEFAULT_MINIMUM_BROKER_AGREEMENT_def
        demo_lower float_defs)

lemma demo_world_objects_Suc:
  "status (objects demo_world (Suc 0)) = ACTIVE"
  "trust_profile (objects demo_world (Suc 0)) = demo_trust_profile"
  using demo_world_objects by simp_all

text \<open>
  The entry that a rejecting \<open>receive_information\<close> leaves last in the sub-agent's own
  activity log.
\<close>

lemma receive_information_rejected_log:
  "fst (receive_information now sender_id information a) = Inr False \<Longrightarrow>
   activity_log (snd (receive_information now sender_id information a)) =
     activity_log a @
       [(now, if status a \<noteq> ACTIVE
                then ''Rejected inbound information - status: '' @ str_MissionStatus (status a)
              else ''Rejected information from: '' @ sender_id @ '' - trust validation failed'')]"
  by (auto simp add: receive_information_def log_activity_def split: sum.splits if_splits)

text \<open>The receiver as \<open>mediate_communication\<close> leaves it, when both calls were made.\<close>

lemma receiver_after_mediate_communication:
  assumes grant: "\<exists>g \<in> set (communication_authorizations (fla w)). is_authorized now g from_id to_id"
    and sender: "active_sub_agents (fla w) from_id = Some s"
    and receiver: "active_sub_agents (fla w) to_id = Some r"
    and active: "status (objects w s) = ACTIVE"
  shows "objects (snd (mediate_communication now from_id to_id information w)) r =
           snd (receive_information now from_id information
                  (objects (snd (invoke s (send_information now to_id information) w)) r))"
proof -
  from grant obtain g where g: "find (\<lambda>auth. is_authorized now auth from_id to_id)
                (communication_authorizations (fla w)) = Some g"
    by (cases "find (\<lambda>auth. is_authorized now auth from_id to_id)
                (communication_authorizations (fla w))") (auto simp add: find_None_iff)
  obtain sent w1 where inv1: "invoke s (send_information now to_id information) w = (sent, w1)"
    by (cases "invoke s (send_information now to_id information) w")
  have sent: "sent"
    using invoke_simps(1)[of s "send_information now to_id information" w] inv1 active by simp
  obtain res w2 where inv2:
    "invoke r (receive_information now from_id information) w1 = (res, w2)"
    by (cases "invoke r (receive_information now from_id information) w1")
  have w2: "objects w2 r = snd (receive_information now from_id information (objects w1 r))"
    using invoke_simps(4)[of r "receive_information now from_id information" w1] inv2 by simp
  have "objects (snd (mediate_communication now from_id to_id information w)) = objects w2"
    using g sender receiver inv1 inv2 sent
    by (simp add: mediate_communication_def split: sum.splits)
  with w2 inv1 show ?thesis by simp
qed

text \<open>The demo's coordinator with a flagged message, and with a completed receiver.\<close>

lemma demo_malicious_rejected:
  "validate_inbound demo_trust_profile ''SA-Research-0a'' ''malicious payload'' = Inr False"
  by (simp add: validate_inbound_def demo_trust_defs)

lemma demo_completed_simps:
  "fla demo_completed = fla demo_authorized"
  "objects demo_completed 0 = objects demo_world 0"
  "status (objects demo_completed (Suc 0)) = COMPLETED"
  "trust_profile (objects demo_completed (Suc 0)) = demo_trust_profile"
  by (simp_all add: demo_completed_def demo_authorized_def complete_mission_def log_activity_def
        demo_world_objects demo_world_objects_Suc)

lemma demo_authorized_grant:
  "\<exists>g \<in> set (communication_authorizations (fla demo_authorized)).
      is_authorized 2000 g ''SA-Research-0a'' ''SA-Analysis-0b''"
  by (simp add: demo_authorized_def demo_world_fla create_def is_authorized_def is_expired_def)

subsection \<open>C3: when \<open>mediate_communication\<close> succeeds\<close>

text \<open>
  Claim C3 says that in every failing case \<open>mediate_communication\<close> appends an event-log
  entry stating the reason. When the receiver's \<open>receive_information\<close> returns \<open>False\<close>
  the entry is \<open>Communication mediated: <from> -> <to> - success: False\<close>, whatever the
  reason was. In the demo's coordinator with its two-way grant, a message that a broker
  flags is rejected by the trust validation of the active analysis sub-agent. In
  \<open>demo_completed\<close> the analysis sub-agent is \<open>COMPLETED\<close> and rejects a message that its
  trust validation accepts. Both calls return \<open>False\<close> and append the same entry, which
  states neither of the two reasons.
\<close>

theorem mediate_communication_reason_counterexample:
  "fst (mediate_communication 2000 ''SA-Research-0a'' ''SA-Analysis-0b'' ''malicious payload''
          demo_authorized) = Inr False \<and>
   event_log (fla (snd (mediate_communication 2000 ''SA-Research-0a'' ''SA-Analysis-0b''
          ''malicious payload'' demo_authorized))) =
     event_log (fla demo_authorized) @
       [(2000, ''[FLA-FLA-001] Communication mediated: SA-Research-0a -> SA-Analysis-0b - success: False'')] \<and>
   fst (mediate_communication 2000 ''SA-Research-0a'' ''SA-Analysis-0b''
          ''Research findings: market trends are positive'' demo_completed) = Inr False \<and>
   event_log (fla (snd (mediate_communication 2000 ''SA-Research-0a'' ''SA-Analysis-0b''
          ''Research findings: market trends are positive'' demo_completed))) =
     event_log (fla demo_completed) @
       [(2000, ''[FLA-FLA-001] Communication mediated: SA-Research-0a -> SA-Analysis-0b - success: False'')] \<and>
   active_sub_agents (fla demo_authorized) ''SA-Analysis-0b'' = Some 1 \<and>
   active_sub_agents (fla demo_completed) ''SA-Analysis-0b'' = Some 1 \<and>
   status (objects demo_authorized 1) = ACTIVE \<and>
   validate_inbound (trust_profile (objects demo_authorized 1)) ''SA-Research-0a''
     ''malicious payload'' = Inr False \<and>
   status (objects demo_completed 1) = COMPLETED \<and>
   validate_inbound (trust_profile (objects demo_completed 1)) ''SA-Research-0a''
     ''Research findings: market trends are positive'' = Inr True"
proof -
  let ?f = "''SA-Research-0a''" and ?t = "''SA-Analysis-0b''"
  let ?i = "''Research findings: market trends are positive''"
  have a1: "fst (mediate_communication 2000 ?f ?t ''malicious payload'' demo_authorized) = Inr False"
    using demo_authorized_grant
    by (simp add: fst_mediate_communication demo_authorized_def demo_world_active
          demo_world_objects demo_world_objects_Suc demo_malicious_rejected)
  have a2: "event_log (fla (snd (mediate_communication 2000 ?f ?t ''malicious payload''
               demo_authorized))) =
     event_log (fla demo_authorized) @
       [(2000, ''[FLA-FLA-001] Communication mediated: SA-Research-0a -> SA-Analysis-0b - success: False'')]"
    using demo_authorized_grant
    by (simp add: event_log_mediate_communication a1)
       (simp add: demo_authorized_def demo_world_active demo_world_objects demo_world_fla)
  have b1: "fst (mediate_communication 2000 ?f ?t ?i demo_completed) = Inr False"
    using demo_authorized_grant
    by (simp add: fst_mediate_communication demo_completed_simps)
       (simp add: demo_completed_simps demo_authorized_def demo_world_active demo_world_objects)
  have b2: "event_log (fla (snd (mediate_communication 2000 ?f ?t ?i demo_completed))) =
     event_log (fla demo_completed) @
       [(2000, ''[FLA-FLA-001] Communication mediated: SA-Research-0a -> SA-Analysis-0b - success: False'')]"
    using demo_authorized_grant
    by (simp add: event_log_mediate_communication b1 demo_completed_simps)
       (simp add: demo_completed_simps demo_authorized_def demo_world_active demo_world_objects
          demo_world_fla)
  have c: "active_sub_agents (fla demo_authorized) ?t = Some 1"
    "active_sub_agents (fla demo_completed) ?t = Some 1"
    "status (objects demo_authorized 1) = ACTIVE"
    "validate_inbound (trust_profile (objects demo_authorized 1)) ?f ''malicious payload'' = Inr False"
    "status (objects demo_completed 1) = COMPLETED"
    "validate_inbound (trust_profile (objects demo_completed 1)) ?f ?i = Inr True"
    by (simp_all add: demo_completed_simps demo_authorized_def demo_world_active
          demo_world_objects demo_world_objects_Suc demo_malicious_rejected demo_findings_accepted)
  from a1 a2 b1 b2 c show ?thesis by (intro conjI)
qed

text \<open>
  Claim C3 as amended. Let the receiver's profile have an agreement count of at least
  \<open>2\<close>, as every profile built by the constructor has. Then \<open>mediate_communication\<close>
  returns \<open>True\<close> exactly when some stored grant authorizes \<open>(from_id, to_id)\<close>, both ids
  are in the active map, the sender's \<open>send_information\<close> returns \<open>True\<close> and the
  receiver's \<open>receive_information\<close>, called after it, returns \<open>True\<close>. In every other case
  it returns \<open>False\<close> and appends one entry to the event log. The entry names the reason
  when no grant authorizes the pair, when the sender or the receiver is not in the
  active map, and when the sender rejects the outbound message. When the receiver
  rejects the message the entry is \<open>Communication mediated: ... - success: False\<close>: it
  records the outcome, not the reason. The reason, the receiver's status or the failed
  trust validation, is the entry that the call appends to the receiver's own activity
  log. The grant the search returns is the first authorizing one in insertion order.
\<close>

theorem mediate_communication_outcome:
  assumes wf: "\<forall>receiver. active_sub_agents (fla w) to_id = Some receiver \<longrightarrow>
                 2 \<le> minimum_broker_agreement (trust_profile (objects w receiver))"
  shows
    "(fst (mediate_communication now from_id to_id information w) = Inr True \<longleftrightarrow>
        (\<exists>g \<in> set (communication_authorizations (fla w)). is_authorized now g from_id to_id) \<and>
        (\<exists>sender receiver.
            active_sub_agents (fla w) from_id = Some sender \<and>
            active_sub_agents (fla w) to_id = Some receiver \<and>
            fst (send_information now to_id information (objects w sender)) \<and>
            fst (receive_information now from_id information
                   (objects (snd (invoke sender (send_information now to_id information) w))
                      receiver)) = Inr True)) \<and>
     (fst (mediate_communication now from_id to_id information w) \<noteq> Inr True \<longrightarrow>
        fst (mediate_communication now from_id to_id information w) = Inr False \<and>
        event_log (fla (snd (mediate_communication now from_id to_id information w))) =
          event_log (fla w) @
            [(now, ''[FLA-'' @ fla_id (fla w) @ ''] '' @
               (if \<not> (\<exists>g \<in> set (communication_authorizations (fla w)).
                         is_authorized now g from_id to_id)
                  then ''Communication blocked: '' @ from_id @ '' -> '' @ to_id @
                       '' - not authorized''
                else case active_sub_agents (fla w) from_id of
                  None \<Rightarrow> ''Communication failed: sender '' @ from_id @ '' not found''
                | Some sender \<Rightarrow>
                    (case active_sub_agents (fla w) to_id of
                       None \<Rightarrow> ''Communication failed: receiver '' @ to_id @ '' not found''
                     | Some receiver \<Rightarrow>
                         if status (objects w sender) \<noteq> ACTIVE
                           then ''Communication failed: sender rejected outbound''
                         else ''Communication mediated: '' @ from_id @ '' -> '' @ to_id @
                              '' - success: False'')))]) \<and>
     ((\<exists>g \<in> set (communication_authorizations (fla w)). is_authorized now g from_id to_id) \<longrightarrow>
        (\<exists>i < length (communication_authorizations (fla w)).
            find (\<lambda>auth. is_authorized now auth from_id to_id)
              (communication_authorizations (fla w)) =
              Some (communication_authorizations (fla w) ! i) \<and>
            is_authorized now (communication_authorizations (fla w) ! i) from_id to_id \<and>
            (\<forall>j < i. \<not> is_authorized now (communication_authorizations (fla w) ! j)
                          from_id to_id))) \<and>
     (\<forall>sender receiver.
        (\<exists>g \<in> set (communication_authorizations (fla w)). is_authorized now g from_id to_id) \<and>
        active_sub_agents (fla w) from_id = Some sender \<and>
        active_sub_agents (fla w) to_id = Some receiver \<and>
        fst (send_information now to_id information (objects w sender)) \<and>
        fst (mediate_communication now from_id to_id information w) \<noteq> Inr True \<longrightarrow>
        activity_log
          (objects (snd (mediate_communication now from_id to_id information w)) receiver) =
          activity_log
            (objects (snd (invoke sender (send_information now to_id information) w)) receiver) @
            [(now, if status (objects w receiver) \<noteq> ACTIVE
                     then ''Rejected inbound information - status: '' @
                          str_MissionStatus (status (objects w receiver))
                   else ''Rejected information from: '' @ from_id @
                        '' - trust validation failed'')])"
proof (intro conjI)
  let ?res = "fst (mediate_communication now from_id to_id information w)"
  have total: "\<exists>b. ?res = Inr b"
  proof (cases "active_sub_agents (fla w) to_id")
    case None
    then show ?thesis
      by (auto simp add: fst_mediate_communication split: option.splits)
  next
    case (Some r)
    with wf have "1 \<le> minimum_broker_agreement (trust_profile (objects w r))" by auto
    from validate_inbound_total[OF this, of from_id information] Some
    show ?thesis
      by (auto simp add: fst_mediate_communication split: option.splits)
  qed
  show "?res = Inr True \<longleftrightarrow>
        (\<exists>g \<in> set (communication_authorizations (fla w)). is_authorized now g from_id to_id) \<and>
        (\<exists>sender receiver.
            active_sub_agents (fla w) from_id = Some sender \<and>
            active_sub_agents (fla w) to_id = Some receiver \<and>
            fst (send_information now to_id information (objects w sender)) \<and>
            fst (receive_information now from_id information
                   (objects (snd (invoke sender (send_information now to_id information) w))
                      receiver)) = Inr True)"
    by (auto simp add: fst_mediate_communication fst_receive_information
          simp del: invoke_simps split: option.splits if_splits)
  show "?res \<noteq> Inr True \<longrightarrow>
        ?res = Inr False \<and>
        event_log (fla (snd (mediate_communication now from_id to_id information w))) =
          event_log (fla w) @
            [(now, ''[FLA-'' @ fla_id (fla w) @ ''] '' @
               (if \<not> (\<exists>g \<in> set (communication_authorizations (fla w)).
                         is_authorized now g from_id to_id)
                  then ''Communication blocked: '' @ from_id @ '' -> '' @ to_id @
                       '' - not authorized''
                else case active_sub_agents (fla w) from_id of
                  None \<Rightarrow> ''Communication failed: sender '' @ from_id @ '' not found''
                | Some sender \<Rightarrow>
                    (case active_sub_agents (fla w) to_id of
                       None \<Rightarrow> ''Communication failed: receiver '' @ to_id @ '' not found''
                     | Some receiver \<Rightarrow>
                         if status (objects w sender) \<noteq> ACTIVE
                           then ''Communication failed: sender rejected outbound''
                         else ''Communication mediated: '' @ from_id @ '' -> '' @ to_id @
                              '' - success: False'')))]"
  proof
    assume ne: "?res \<noteq> Inr True"
    from total obtain b where b: "?res = Inr b" by blast
    with ne have f: "?res = Inr False" by (cases b) simp_all
    show "?res = Inr False \<and>
        event_log (fla (snd (mediate_communication now from_id to_id information w))) =
          event_log (fla w) @
            [(now, ''[FLA-'' @ fla_id (fla w) @ ''] '' @
               (if \<not> (\<exists>g \<in> set (communication_authorizations (fla w)).
                         is_authorized now g from_id to_id)
                  then ''Communication blocked: '' @ from_id @ '' -> '' @ to_id @
                       '' - not authorized''
                else case active_sub_agents (fla w) from_id of
                  None \<Rightarrow> ''Communication failed: sender '' @ from_id @ '' not found''
                | Some sender \<Rightarrow>
                    (case active_sub_agents (fla w) to_id of
                       None \<Rightarrow> ''Communication failed: receiver '' @ to_id @ '' not found''
                     | Some receiver \<Rightarrow>
                         if status (objects w sender) \<noteq> ACTIVE
                           then ''Communication failed: sender rejected outbound''
                         else ''Communication mediated: '' @ from_id @ '' -> '' @ to_id @
                              '' - success: False'')))]"
      using f event_log_mediate_communication[of now from_id to_id information w]
      by (simp split: option.splits)
  qed
  show "(\<exists>g \<in> set (communication_authorizations (fla w)). is_authorized now g from_id to_id) \<longrightarrow>
        (\<exists>i < length (communication_authorizations (fla w)).
            find (\<lambda>auth. is_authorized now auth from_id to_id)
              (communication_authorizations (fla w)) =
              Some (communication_authorizations (fla w) ! i) \<and>
            is_authorized now (communication_authorizations (fla w) ! i) from_id to_id \<and>
            (\<forall>j < i. \<not> is_authorized now (communication_authorizations (fla w) ! j)
                          from_id to_id))"
    using find_first[of "communication_authorizations (fla w)"
            "\<lambda>auth. is_authorized now auth from_id to_id"]
    by blast
  show "\<forall>sender receiver.
        (\<exists>g \<in> set (communication_authorizations (fla w)). is_authorized now g from_id to_id) \<and>
        active_sub_agents (fla w) from_id = Some sender \<and>
        active_sub_agents (fla w) to_id = Some receiver \<and>
        fst (send_information now to_id information (objects w sender)) \<and>
        ?res \<noteq> Inr True \<longrightarrow>
        activity_log
          (objects (snd (mediate_communication now from_id to_id information w)) receiver) =
          activity_log
            (objects (snd (invoke sender (send_information now to_id information) w)) receiver) @
            [(now, if status (objects w receiver) \<noteq> ACTIVE
                     then ''Rejected inbound information - status: '' @
                          str_MissionStatus (status (objects w receiver))
                   else ''Rejected information from: '' @ from_id @
                        '' - trust validation failed'')]"
  proof (intro allI impI)
    fix s r
    let ?w1 = "snd (invoke s (send_information now to_id information) w)"
    assume a: "(\<exists>g \<in> set (communication_authorizations (fla w)).
                  is_authorized now g from_id to_id) \<and>
        active_sub_agents (fla w) from_id = Some s \<and>
        active_sub_agents (fla w) to_id = Some r \<and>
        fst (send_information now to_id information (objects w s)) \<and>
        ?res \<noteq> Inr True"
    then have grant: "\<exists>g \<in> set (communication_authorizations (fla w)).
                        is_authorized now g from_id to_id"
      and sender: "active_sub_agents (fla w) from_id = Some s"
      and receiver: "active_sub_agents (fla w) to_id = Some r"
      and active: "status (objects w s) = ACTIVE"
      and ne: "?res \<noteq> Inr True"
      by simp_all
    from total obtain b where b: "?res = Inr b" by blast
    with ne have f: "?res = Inr False" by (cases b) simp_all
    have "fst (receive_information now from_id information (objects ?w1 r)) = ?res"
      using grant sender receiver active
      by (simp add: fst_mediate_communication fst_receive_information del: invoke_simps)
    with f have rej: "fst (receive_information now from_id information (objects ?w1 r)) = Inr False"
      by simp
    have st: "status (objects ?w1 r) = status (objects w r)"
      by (rule receiver_after_send(1))
    from receive_information_rejected_log[OF rej] st
         receiver_after_mediate_communication[OF grant sender receiver active, of information]
    show "activity_log
          (objects (snd (mediate_communication now from_id to_id information w)) r) =
          activity_log (objects ?w1 r) @
            [(now, if status (objects w r) \<noteq> ACTIVE
                     then ''Rejected inbound information - status: '' @
                          str_MissionStatus (status (objects w r))
                   else ''Rejected information from: '' @ from_id @
                        '' - trust validation failed'')]"
      by simp
  qed
qed

text \<open>
  In the demo the first attempt, before any grant exists, is blocked and logged; after
  the two-way grant the same message is delivered.
\<close>

theorem mediate_communication_outcome_witness:
  "fst (mediate_communication 1400 ''SA-Research-0a'' ''SA-Analysis-0b''
          ''Research findings: market trends are positive'' demo_world) = Inr False \<and>
   event_log (fla (snd (mediate_communication 1400 ''SA-Research-0a'' ''SA-Analysis-0b''
          ''Research findings: market trends are positive'' demo_world))) =
     event_log (fla demo_world) @
       [(1400, ''[FLA-FLA-001] Communication blocked: SA-Research-0a -> SA-Analysis-0b - not authorized'')] \<and>
   fst (mediate_communication 2000 ''SA-Research-0a'' ''SA-Analysis-0b''
          ''Research findings: market trends are positive'' demo_authorized) = Inr True"
proof -
  let ?f = "''SA-Research-0a''" and ?t = "''SA-Analysis-0b''"
  let ?i = "''Research findings: market trends are positive''"
  have wf1: "\<forall>receiver. active_sub_agents (fla demo_world) ?t = Some receiver \<longrightarrow>
               2 \<le> minimum_broker_agreement (trust_profile (objects demo_world receiver))"
    by (simp add: demo_world_active demo_world_objects demo_world_objects_Suc demo_trust_profile_agreement)
  have wf2: "\<forall>receiver. active_sub_agents (fla demo_authorized) ?t = Some receiver \<longrightarrow>
               2 \<le> minimum_broker_agreement (trust_profile (objects demo_authorized receiver))"
    by (simp add: demo_authorized_def demo_world_active demo_world_objects demo_world_objects_Suc
          demo_trust_profile_agreement)
  note th1 = mediate_communication_outcome[OF wf1, of 1400 ?f ?i]
  note th2 = mediate_communication_outcome[OF wf2, of 2000 ?f ?i]
  have nauth: "\<not> (\<exists>g \<in> set (communication_authorizations (fla demo_world)).
                     is_authorized 1400 g ?f ?t)"
    by (simp add: demo_world_fla)
  from th1[THEN conjunct1] nauth
  have ne: "fst (mediate_communication 1400 ?f ?t ?i demo_world) \<noteq> Inr True" by blast
  from th1[THEN conjunct2, THEN conjunct1, rule_format, OF ne] nauth
  have blocked:
    "fst (mediate_communication 1400 ?f ?t ?i demo_world) = Inr False"
    "event_log (fla (snd (mediate_communication 1400 ?f ?t ?i demo_world))) =
       event_log (fla demo_world) @
         [(1400, ''[FLA-FLA-001] Communication blocked: SA-Research-0a -> SA-Analysis-0b - not authorized'')]"
    by (simp_all add: demo_world_fla)
  have auth: "\<exists>g \<in> set (communication_authorizations (fla demo_authorized)).
                 is_authorized 2000 g ?f ?t"
    by (simp add: demo_authorized_def demo_world_fla create_def is_authorized_def is_expired_def)
  have parties:
    "\<exists>sender receiver.
        active_sub_agents (fla demo_authorized) ?f = Some sender \<and>
        active_sub_agents (fla demo_authorized) ?t = Some receiver \<and>
        fst (send_information 2000 ?t ?i (objects demo_authorized sender)) \<and>
        fst (receive_information 2000 ?f ?i
               (objects (snd (invoke sender (send_information 2000 ?t ?i) demo_authorized))
                  receiver)) = Inr True"
    by (simp add: demo_authorized_def demo_world_active demo_world_objects demo_world_objects_Suc
          fst_receive_information demo_findings_accepted del: invoke_simps)
  from th2[THEN conjunct1] auth parties
  have ok: "fst (mediate_communication 2000 ?f ?t ?i demo_authorized) = Inr True" by blast
  from blocked ok show ?thesis by (intro conjI)
qed

subsection \<open>C4: retirement\<close>

text \<open>How the calls on the coordinator change the active map.\<close>

lemma classify_domain_frame [simp]:
  "active_sub_agents (fla (snd (classify_domain now user_intent w))) = active_sub_agents (fla w)"
  "allocated (snd (classify_domain now user_intent w)) = allocated w"
  by (simp_all add: classify_domain_def Let_def)

lemma classify_domain_label:
  "fst (classify_domain now user_intent w) = fst (classify_domain now' user_intent w')"
  by (simp add: classify_domain_def Let_def)

lemma create_sub_agent_active:
  "active_sub_agents (fla (snd (create_sub_agent now hex domain_name profile_arg w))) =
     (active_sub_agents (fla w))(''SA-'' @ domain_name @ ''-'' @ hex \<mapsto> allocated w)"
  by (simp add: create_sub_agent_def invoke_def start_mission_def SubAgent_init_def
        log_activity_def Let_def)

lemma reactivate_sub_agent_active [simp]:
  "active_sub_agents (fla (snd (reactivate_sub_agent now agent_id w))) = active_sub_agents (fla w)"
  by (simp add: reactivate_sub_agent_def split: option.splits)

lemma retire_sub_agent_unknown:
  "active_sub_agents (fla w) agent_id = None \<Longrightarrow> retire_sub_agent now agent_id w = w"
  by (simp add: retire_sub_agent_def)

lemma retire_sub_agent_known:
  assumes "active_sub_agents (fla w) agent_id = Some agent"
  shows "objects (retire_sub_agent now agent_id w) = (objects w)(agent := retire now (objects w agent))"
    and "active_sub_agents (fla (retire_sub_agent now agent_id w)) =
           (active_sub_agents (fla w))(agent_id := None)"
    and "communication_authorizations (fla (retire_sub_agent now agent_id w)) =
           filter (\<lambda>auth. from_agent_id auth \<noteq> agent_id \<and> to_agent_id auth \<noteq> agent_id)
             (communication_authorizations (fla w))"
    and "event_log (fla (retire_sub_agent now agent_id w)) =
           event_log (fla w) @
             [(now, ''[FLA-'' @ fla_id (fla w) @ ''] Retired SubAgent: '' @ agent_id)]"
  using assms by (simp_all add: retire_sub_agent_def Let_def)

lemma retire_sub_agent_active:
  "active_sub_agents (fla (retire_sub_agent now agent_id w)) =
     (active_sub_agents (fla w))(agent_id := None)"
proof (cases "active_sub_agents (fla w) agent_id")
  case None
  then show ?thesis by (simp add: retire_sub_agent_unknown fun_upd_idem)
next
  case (Some a)
  then show ?thesis by (rule retire_sub_agent_known(2))
qed


lemma process_user_task_active:
  "active_sub_agents (fla (snd (process_user_task now hex user_intent task_details w))) =
     (active_sub_agents (fla w))
       (''SA-'' @ fst (classify_domain now user_intent w) @ ''-'' @ hex \<mapsto> allocated w)"
proof -
  define w1 where "w1 = log_event now (''Processing user task: '' @ user_intent) w"
  obtain d w2 where cl: "classify_domain now user_intent w1 = (d, w2)"
    by (cases "classify_domain now user_intent w1")
  have d: "d = fst (classify_domain now user_intent w)"
    using classify_domain_label[of now user_intent w1 now w] cl by simp
  have "active_sub_agents (fla w2) = active_sub_agents (fla w1)"
    and "allocated w2 = allocated w1"
    using classify_domain_frame[of now user_intent w1] cl by simp_all
  then have a2: "active_sub_agents (fla w2) = active_sub_agents (fla w)"
    and n2: "allocated w2 = allocated w"
    by (simp_all add: w1_def)
  obtain r3 w3 where cr: "create_sub_agent now hex d None w2 = (r3, w3)"
    by (cases "create_sub_agent now hex d None w2")
  have a3: "active_sub_agents (fla w3) =
              (active_sub_agents (fla w))(''SA-'' @ d @ ''-'' @ hex \<mapsto> allocated w)"
    using create_sub_agent_active[of now hex d None w2] cr a2 n2 by simp
  have "active_sub_agents (fla (snd (process_user_task now hex user_intent task_details w))) =
          active_sub_agents (fla w3)"
  proof (cases r3)
    case (Inl e)
    with cl cr show ?thesis by (simp add: process_user_task_def w1_def)
  next
    case (Inr sub_agent)
    obtain r4 w4 where p: "invoke sub_agent (process_task now task_details) w3 = (r4, w4)"
      by (cases "invoke sub_agent (process_task now task_details) w3")
    have f4: "fla w4 = fla w3"
      using invoke_simps(2)[of sub_agent "process_task now task_details" w3] p by simp
    obtain r5 w5 where c: "invoke sub_agent (complete_mission now) w4 = (r5, w5)"
      by (cases "invoke sub_agent (complete_mission now) w4")
    have f5: "fla w5 = fla w3"
      using invoke_simps(2)[of sub_agent "complete_mission now" w4] c f4 by simp
    from cl cr Inr p c f4 f5 show ?thesis
      by (simp add: process_user_task_def w1_def split: sum.splits)
  qed
  with a3 d show ?thesis by simp
qed

text \<open>An id that is not in the active map stays out of it, unless a call creates it.\<close>

lemma perform_keeps_absent:
  assumes "active_sub_agents (fla w) agent_id = None" and "creates r w \<noteq> Some agent_id"
  shows "active_sub_agents (fla (perform r w)) agent_id = None"
proof (cases r)
  case (Classify now user_intent)
  with assms show ?thesis by simp
next
  case (Create now hex domain_name profile_arg)
  with assms show ?thesis by (simp add: create_sub_agent_active)
next
  case (Reactivate now a)
  with assms show ?thesis by simp
next
  case (Authorize now f t b sc ttl)
  with assms show ?thesis by simp
next
  case (Mediate now f t i)
  with assms show ?thesis by (simp add: mediate_communication_frame)
next
  case (Retire now a)
  with assms show ?thesis by (simp add: retire_sub_agent_active)
next
  case (ProcessUserTask now hex user_intent task_details)
  with assms show ?thesis by (simp add: process_user_task_active)
qed

lemma perform_all_keeps_absent:
  "active_sub_agents (fla w) agent_id = None \<Longrightarrow> never_creates agent_id rs w \<Longrightarrow>
   active_sub_agents (fla (perform_all rs w)) agent_id = None"
proof (induction rs arbitrary: w)
  case Nil
  then show ?case by simp
next
  case (Cons r rs)
  from Cons.prems have "active_sub_agents (fla (perform r w)) agent_id = None"
    by (simp add: perform_keeps_absent)
  moreover from Cons.prems have "never_creates agent_id rs (perform r w)" by simp
  ultimately show ?case using Cons.IH by simp
qed

text \<open>No message passes to or from an id that is not in the active map.\<close>

lemma mediate_communication_absent:
  assumes "active_sub_agents (fla w) agent_id = None"
  shows "fst (mediate_communication now agent_id other information w) = Inr False"
    and "fst (mediate_communication now other agent_id information w) = Inr False"
  using assms by (simp_all add: fst_mediate_communication split: option.splits)


lemma status_retire [simp]: "status (retire now a) = RETIRED"
  by (simp add: retire_def log_activity_def)

text \<open>
  Claim C4. \<open>retire_sub_agent\<close> on an id that is not in the active map changes nothing.
  On an id that is in the map, the object it refers to ends with status \<open>RETIRED\<close>, the
  id is removed from the map (and nothing else is), and the grants that are kept are
  those that name the id neither as source nor as target. After the call the id is not
  in the map, and whatever sequence of calls on the coordinator follows, as long as none
  of them creates a sub-agent under this very id, every \<open>mediate_communication\<close> with
  the id as sender or as receiver returns \<open>False\<close>.
\<close>

theorem retirement_purge:
  "(active_sub_agents (fla w) agent_id = None \<longrightarrow> retire_sub_agent now agent_id w = w) \<and>
   (\<forall>agent. active_sub_agents (fla w) agent_id = Some agent \<longrightarrow>
      status (objects (retire_sub_agent now agent_id w) agent) = RETIRED \<and>
      active_sub_agents (fla (retire_sub_agent now agent_id w)) =
        (active_sub_agents (fla w))(agent_id := None) \<and>
      communication_authorizations (fla (retire_sub_agent now agent_id w)) =
        filter (\<lambda>auth. from_agent_id auth \<noteq> agent_id \<and> to_agent_id auth \<noteq> agent_id)
          (communication_authorizations (fla w)) \<and>
      (\<forall>auth \<in> set (communication_authorizations (fla (retire_sub_agent now agent_id w))).
          from_agent_id auth \<noteq> agent_id \<and> to_agent_id auth \<noteq> agent_id)) \<and>
   active_sub_agents (fla (retire_sub_agent now agent_id w)) agent_id = None \<and>
   (\<forall>rs. never_creates agent_id rs (retire_sub_agent now agent_id w) \<longrightarrow>
      (\<forall>later other information.
          fst (mediate_communication later agent_id other information
                 (perform_all rs (retire_sub_agent now agent_id w))) = Inr False \<and>
          fst (mediate_communication later other agent_id information
                 (perform_all rs (retire_sub_agent now agent_id w))) = Inr False))"
proof (intro conjI allI impI)
  show "retire_sub_agent now agent_id w = w" if "active_sub_agents (fla w) agent_id = None"
    using that by (rule retire_sub_agent_unknown)
next
  fix agent assume a: "active_sub_agents (fla w) agent_id = Some agent"
  show "status (objects (retire_sub_agent now agent_id w) agent) = RETIRED"
    by (simp add: retire_sub_agent_known(1)[OF a])
  show "active_sub_agents (fla (retire_sub_agent now agent_id w)) =
        (active_sub_agents (fla w))(agent_id := None)"
    by (rule retire_sub_agent_active)
  show "communication_authorizations (fla (retire_sub_agent now agent_id w)) =
        filter (\<lambda>auth. from_agent_id auth \<noteq> agent_id \<and> to_agent_id auth \<noteq> agent_id)
          (communication_authorizations (fla w))"
    by (rule retire_sub_agent_known(3)[OF a])
  show "\<forall>auth \<in> set (communication_authorizations (fla (retire_sub_agent now agent_id w))).
          from_agent_id auth \<noteq> agent_id \<and> to_agent_id auth \<noteq> agent_id"
    by (simp add: retire_sub_agent_known(3)[OF a])
next
  show gone: "active_sub_agents (fla (retire_sub_agent now agent_id w)) agent_id = None"
    by (simp add: retire_sub_agent_active)
  fix rs later other information
  assume nc: "never_creates agent_id rs (retire_sub_agent now agent_id w)"
  from perform_all_keeps_absent[OF gone nc]
  have absent: "active_sub_agents (fla (perform_all rs (retire_sub_agent now agent_id w))) agent_id
                  = None" .
  show "fst (mediate_communication later agent_id other information
                 (perform_all rs (retire_sub_agent now agent_id w))) = Inr False"
    by (rule mediate_communication_absent(1)[OF absent])
  show "fst (mediate_communication later other agent_id information
                 (perform_all rs (retire_sub_agent now agent_id w))) = Inr False"
    by (rule mediate_communication_absent(2)[OF absent])
qed

lemma demo_world_active_map:
  "active_sub_agents (fla demo_world) = [''SA-Research-0a'' \<mapsto> 0, ''SA-Analysis-0b'' \<mapsto> Suc 0]"
  by (simp add: demo_world_defs)

text \<open>
  In the demo, after the two-way grant: retiring an unknown id changes nothing; retiring
  the research sub-agent leaves its object retired, the grant purged and the id out of
  the map, and neither a new grant for the id, nor the creation of another research
  sub-agent, nor an earlier attempt lets a later message through.
\<close>

theorem retirement_purge_witness:
  "retire_sub_agent 3000 ''SA-Unknown-ff'' demo_authorized = demo_authorized \<and>
   status (objects (retire_sub_agent 3000 ''SA-Research-0a'' demo_authorized) 0) = RETIRED \<and>
   communication_authorizations (fla (retire_sub_agent 3000 ''SA-Research-0a'' demo_authorized))
     = [] \<and>
   active_sub_agents (fla (retire_sub_agent 3000 ''SA-Research-0a'' demo_authorized))
     ''SA-Research-0a'' = None \<and>
   fst (mediate_communication 3300 ''SA-Analysis-0b'' ''SA-Research-0a'' ''findings''
          (perform_all
             [Authorize 3100 ''SA-Analysis-0b'' ''SA-Research-0a'' True None None,
              Create 3150 ''0c'' ''Research'' None,
              Mediate 3200 ''SA-Research-0a'' ''SA-Analysis-0b'' ''findings'']
             (retire_sub_agent 3000 ''SA-Research-0a'' demo_authorized))) = Inr False \<and>
   fst (mediate_communication 3300 ''SA-Research-0a'' ''SA-Analysis-0b'' ''findings''
          (perform_all
             [Authorize 3100 ''SA-Analysis-0b'' ''SA-Research-0a'' True None None,
              Create 3150 ''0c'' ''Research'' None,
              Mediate 3200 ''SA-Research-0a'' ''SA-Analysis-0b'' ''findings'']
             (retire_sub_agent 3000 ''SA-Research-0a'' demo_authorized))) = Inr False"
proof -
  let ?rs = "[Authorize 3100 ''SA-Analysis-0b'' ''SA-Research-0a'' True None None,
              Create 3150 ''0c'' ''Research'' None,
              Mediate 3200 ''SA-Research-0a'' ''SA-Analysis-0b'' ''findings'']"
  let ?w' = "retire_sub_agent 3000 ''SA-Research-0a'' demo_authorized"
  have unknown: "active_sub_agents (fla demo_authorized) ''SA-Unknown-ff'' = None"
    by (simp add: demo_authorized_def demo_world_active_map)
  have known: "active_sub_agents (fla demo_authorized) ''SA-Research-0a'' = Some 0"
    by (simp add: demo_authorized_def demo_world_active_map)
  have nc: "never_creates ''SA-Research-0a'' ?rs ?w'"
    by simp
  note u = retirement_purge[of demo_authorized "''SA-Unknown-ff''" 3000]
  note k = retirement_purge[of demo_authorized "''SA-Research-0a''" 3000]
  note c1 = u[THEN conjunct1, rule_format, OF unknown]
  note k2 = k[THEN conjunct2, THEN conjunct1, rule_format, OF known]
  note c2 = k2[THEN conjunct1]
  have c3: "communication_authorizations (fla ?w') = []"
    using k2[THEN conjunct2, THEN conjunct2, THEN conjunct1]
    by (simp add: demo_authorized_def demo_world_fla create_def)
  note c4 = k[THEN conjunct2, THEN conjunct2, THEN conjunct1]
  note k5 = k[THEN conjunct2, THEN conjunct2, THEN conjunct2, rule_format, OF nc,
              of 3300 "''SA-Analysis-0b''" "''findings''"]
  from c1 c2 c3 c4 k5[THEN conjunct2] k5[THEN conjunct1] show ?thesis by (intro conjI)
qed

subsection \<open>C5: grants with a time to live of zero or less\<close>

text \<open>
  A grant with a negative time to live has expired at every clock reading from its
  creation on.
\<close>

lemma negative_ttl_never_authorizes:
  "d < 0 \<Longrightarrow> created \<le> now \<Longrightarrow>
   \<not> is_authorized now (create created from_id to_id bidirectional scopes_arg (Some d)) x y"
  by (simp add: is_authorized_def is_expired_def create_def Let_def)

text \<open>A grant with a time to live of zero length has no expiry time, and never expires.\<close>

lemma zero_ttl_never_expires:
  "expires_at (create created from_id to_id bidirectional scopes_arg (Some 0)) = None"
  "\<not> is_expired now (create created from_id to_id bidirectional scopes_arg (Some 0))"
  by (simp_all add: is_expired_def create_def Let_def)

text \<open>
  Claim C5 says that a grant created with a time to live of zero is never matched by
  \<open>mediate_communication\<close>. In the demo's coordinator, with the one-way grant
  \<^verbatim>\<open>authorize_communication(research.id, analysis.id, ttl=timedelta(0))\<close> as the only
  grant, the grant is stored without an expiry time, and the mediation between the two
  active sub-agents returns \<open>True\<close>, at the instant of the grant's creation and at every
  other clock reading.
\<close>

theorem zero_ttl_grant_authorizes:
  "communication_authorizations (fla demo_zero_ttl) =
     [create 1500 ''SA-Research-0a'' ''SA-Analysis-0b'' False None (Some 0)] \<and>
   expires_at (create 1500 ''SA-Research-0a'' ''SA-Analysis-0b'' False None (Some 0)) = None \<and>
   fst (mediate_communication 1500 ''SA-Research-0a'' ''SA-Analysis-0b''
          ''Research findings: market trends are positive'' demo_zero_ttl) = Inr True \<and>
   (\<forall>now. fst (mediate_communication now ''SA-Research-0a'' ''SA-Analysis-0b''
                  ''Research findings: market trends are positive'' demo_zero_ttl) = Inr True)"
proof -
  have auths: "communication_authorizations (fla demo_zero_ttl) =
     [create 1500 ''SA-Research-0a'' ''SA-Analysis-0b'' False None (Some 0)]"
    by (simp add: demo_zero_ttl_def demo_world_fla)
  have ok: "fst (mediate_communication now ''SA-Research-0a'' ''SA-Analysis-0b''
                  ''Research findings: market trends are positive'' demo_zero_ttl) = Inr True"
    for now
    by (simp add: fst_mediate_communication auths is_authorized_def zero_ttl_never_expires)
       (simp add: demo_zero_ttl_def demo_world_active demo_world_objects demo_world_objects_Suc
          demo_findings_accepted create_def)
  from auths zero_ttl_never_expires(1) ok show ?thesis by blast
qed

subsection \<open>C8: what \<open>classify_domain\<close> does to the state\<close>

text \<open>
  Claim C8 says that \<open>classify_domain\<close> leaves the coordinator's state, its event log
  included, unchanged. The method starts with \<^verbatim>\<open>self._log_event(...)\<close>, so the event log
  grows with every call; already on the freshly created coordinator of the demo the log
  after the call differs from the log before it.
\<close>

theorem classify_domain_logs_counterexample:
  "event_log (fla (snd (classify_domain 2000 ''analyze some data'' demo_initial))) \<noteq>
   event_log (fla demo_initial)"
  by (simp add: classify_domain_def Let_def)

text \<open>
  Claim C8 as amended. The label that \<open>classify_domain\<close> returns is determined by the
  intent text alone: it is the same at every clock reading and in every state. The call
  appends exactly one entry, \<open>Classifying domain for intent: <intent>\<close>, to the event log
  and changes nothing else: not the store of sub-agents, not the active map, not the
  authorizations, not the default profile, not the coordinator's id.
\<close>

theorem classify_domain_effect:
  "fst (classify_domain now user_intent w) = fst (classify_domain now' user_intent w') \<and>
   snd (classify_domain now user_intent w) =
     log_event now (''Classifying domain for intent: '' @ user_intent) w \<and>
   event_log (fla (snd (classify_domain now user_intent w))) =
     event_log (fla w) @
       [(now, ''[FLA-'' @ fla_id (fla w) @ ''] Classifying domain for intent: '' @ user_intent)] \<and>
   objects (snd (classify_domain now user_intent w)) = objects w \<and>
   allocated (snd (classify_domain now user_intent w)) = allocated w \<and>
   active_sub_agents (fla (snd (classify_domain now user_intent w))) = active_sub_agents (fla w) \<and>
   communication_authorizations (fla (snd (classify_domain now user_intent w))) =
     communication_authorizations (fla w) \<and>
   default_trust_profile (fla (snd (classify_domain now user_intent w))) =
     default_trust_profile (fla w) \<and>
   fla_id (fla (snd (classify_domain now user_intent w))) = fla_id (fla w)"
  by (simp add: classify_domain_def Let_def)

end
